theory Spec2Isabelle
  imports Complex_Main
begin

section \<open>JavaScript values used by \<open>src/lib/ai-providers.ts\<close>\<close>

text \<open>
  A JavaScript string is modelled as a \<open>string\<close>: one \<open>char\<close> per UTF-16 code unit, for
  code units below 256. A value of type \<open>string | null | undefined\<close> is a
  \<open>string option\<close>; the source only ever tests such a value for truthiness, and
  \<open>null\<close> and \<open>undefined\<close> are both falsy, so both are \<open>None\<close>. The empty string is
  falsy as well.
\<close>

definition truthy :: "string option \<Rightarrow> bool" where
  "truthy v = (case v of None \<Rightarrow> False | Some s \<Rightarrow> s \<noteq> [])"

text \<open>The operator \<open>a || b\<close> on such values: \<open>a\<close> when it is truthy, else \<open>b\<close>.\<close>

definition orElse :: "string option \<Rightarrow> string option \<Rightarrow> string option" where
  "orElse a b = (if truthy a then a else b)"

text \<open>
  The statement \<open>if (v) { ... v ... } else { ... }\<close>: the first branch reads the string
  that made the test succeed.
\<close>

definition ifTruthy :: "string option \<Rightarrow> (string \<Rightarrow> 'a) \<Rightarrow> 'a \<Rightarrow> 'a" where
  "ifTruthy v f d = (case v of None \<Rightarrow> d | Some s \<Rightarrow> if s \<noteq> [] then f s else d)"

text \<open>\<open>String.prototype.startsWith\<close> and \<open>String.prototype.includes\<close>.\<close>

fun str_startsWith :: "string \<Rightarrow> string \<Rightarrow> bool" where
  "str_startsWith s [] = True"
| "str_startsWith [] (p # ps) = False"
| "str_startsWith (c # cs) (p # ps) = (c = p \<and> str_startsWith cs ps)"

fun str_includes :: "string \<Rightarrow> string \<Rightarrow> bool" where
  "str_includes [] sub = str_startsWith [] sub"
| "str_includes (c # cs) sub = (str_startsWith (c # cs) sub \<or> str_includes cs sub)"

text \<open>\<open>Array.prototype.join\<close> on an array of strings.\<close>

fun join :: "string \<Rightarrow> string list \<Rightarrow> string" where
  "join sep [] = []"
| "join sep [x] = x"
| "join sep (x # y # ys) = x @ sep @ join sep (y # ys)"

text \<open>
  Objects are association lists in insertion order, which is the order
  \<open>Object.keys\<close> and \<open>Object.entries\<close> enumerate. \<open>JOpaque\<close> stands for a value the
  SDKs hand back and this module never inspects.
\<close>

datatype json =
    JUndefined
  | JBool bool
  | JNum rat
  | JStr string
  | JArr "json list"
  | JObj "(string \<times> json) list"
  | JOpaque string

type_synonym object = "(string \<times> json) list"

definition jsStr :: "string option \<Rightarrow> json" where
  "jsStr v = (case v of None \<Rightarrow> JUndefined | Some s \<Rightarrow> JStr s)"

text \<open>The assignment \<open>obj[k] = v\<close>: an existing key keeps its place.\<close>

fun setProp :: "string \<Rightarrow> json \<Rightarrow> object \<Rightarrow> object" where
  "setProp k v [] = [(k, v)]"
| "setProp k v ((k', v') # kvs) =
     (if k = k' then (k, v) # kvs else (k', v') # setProp k v kvs)"

text \<open>The object literal \<open>{ ...a, ...b }\<close>.\<close>

definition spread :: "object \<Rightarrow> object \<Rightarrow> object" where
  "spread a b = fold (\<lambda>kv acc. setProp (fst kv) (snd kv) acc) b a"

text \<open>
  \<open>x || {}\<close> followed by a spread, for \<open>x\<close> a property that is an object or
  \<open>undefined\<close>.
\<close>

definition objOrEmpty :: "json option \<Rightarrow> object" where
  "objOrEmpty x = (case x of Some (JObj kvs) \<Rightarrow> kvs | _ \<Rightarrow> [])"

text \<open>The fragment \<open>...(v && { k: v })\<close> of an object literal.\<close>

definition optProp :: "string \<Rightarrow> string option \<Rightarrow> object" where
  "optProp k v = (if truthy v then [(k, jsStr v)] else [])"

section \<open>The environment and the errors\<close>

text \<open>
  \<open>process.env\<close> is an association list from variable names to their values; a
  variable that is not set reads as \<open>undefined\<close>.
\<close>

type_synonym env = "(string \<times> string) list"

definition getenv :: "env \<Rightarrow> string \<Rightarrow> string option" where
  "getenv e k = map_of e k"

text \<open>
  The source throws plain \<open>Error\<close> objects. Each throw site is tagged here with the
  class of the specification's taxonomy it belongs to, and carries the message:
  \<^item> \<open>SecurityError\<close>: line 470;
  \<^item> \<open>ConfigurationError\<close>: lines 81, 84, 87 (integer settings), 255 (\<open>GOOGLE_TOP_P\<close>),
    484 and 488 (no model identifier);
  \<^item> \<open>UnsupportedProviderError\<close>: lines 502 and 772;
  \<^item> \<open>NoProviderConfiguredError\<close>: line 521; \<open>AmbiguousProviderError\<close>: line 535;
  \<^item> \<open>CredentialError\<close>: lines 415 and 426.
\<close>

datatype error =
    SecurityError string
  | ConfigurationError string
  | UnsupportedProviderError string
  | NoProviderConfiguredError string
  | AmbiguousProviderError string
  | CredentialError string

section \<open>Integer settings\<close>

text \<open>
  \<open>Number.parseInt(value, 10)\<close>: leading white space is skipped, then an optional sign,
  then the longest run of decimal digits; anything after it is ignored; no digit at all
  gives \<open>NaN\<close>, which is \<open>None\<close> here. The result is the mathematical integer;
  JavaScript rounds it to a binary64 number, which is the same number up to \<open>2^53\<close> and
  compares the same way with the bounds used below. Only the rendering of a larger
  number in an error message differs.
\<close>

definition isStrWhiteSpace :: "char \<Rightarrow> bool" where
  "isStrWhiteSpace c = ((of_char c :: nat) \<in> {9, 10, 11, 12, 13, 32, 160})"

definition isDigit :: "char \<Rightarrow> bool" where
  "isDigit c = (48 \<le> (of_char c :: nat) \<and> (of_char c :: nat) \<le> 57)"

definition digitsValue :: "string \<Rightarrow> int" where
  "digitsValue ds = foldl (\<lambda>a c. 10 * a + (int (of_char c) - 48)) 0 ds"

definition parseInt :: "string \<Rightarrow> int option" where
  "parseInt s =
     (let t = dropWhile isStrWhiteSpace s;
          neg = (case t of [] \<Rightarrow> False | c # cs \<Rightarrow> c = CHR ''-'');
          r = (case t of [] \<Rightarrow> []
               | c # cs \<Rightarrow> if c = CHR ''-'' \<or> c = CHR ''+'' then cs else t);
          ds = takeWhile isDigit r
      in if ds = [] then None
         else Some (if neg then - digitsValue ds else digitsValue ds))"

text \<open>Template literals render an integer in decimal.\<close>

function showNat :: "nat \<Rightarrow> string" where
  "showNat n =
     (if n < 10 then [char_of (48 + n)] else showNat (n div 10) @ [char_of (48 + n mod 10)])"
  by pat_completeness auto
termination
  by (relation "measure id") auto

declare showNat.simps [simp del]

definition showInt :: "int \<Rightarrow> string" where
  "showInt i = (if i < 0 then CHR ''-'' # showNat (nat (- i)) else showNat (nat i))"

text \<open>
  \<open>parseIntSafe\<close>, lines 72-90. \<open>undefined\<close> and the empty string give \<open>undefined\<close>
  (\<open>None\<close>); the bounds are optional parameters.
\<close>

definition parseIntSafe ::
  "string option \<Rightarrow> string \<Rightarrow> int option \<Rightarrow> int option \<Rightarrow> error + int option" where
  "parseIntSafe v varName mn mx =
     (case v of
        None \<Rightarrow> Inr None
      | Some s \<Rightarrow>
          if s = [] then Inr None
          else (case parseInt s of
                  None \<Rightarrow>
                    Inl (ConfigurationError (varName @ '' must be a valid integer, got: '' @ s))
                | Some parsed \<Rightarrow>
                    (case (case mn of None \<Rightarrow> None
                           | Some lo \<Rightarrow> if parsed < lo then Some lo else None) of
                       Some lo \<Rightarrow>
                         Inl (ConfigurationError
                               (varName @ '' must be >= '' @ showInt lo @ '', got: '' @
                                showInt parsed))
                     | None \<Rightarrow>
                         (case (case mx of None \<Rightarrow> None
                                | Some hi \<Rightarrow> if parsed > hi then Some hi else None) of
                            Some hi \<Rightarrow>
                              Inl (ConfigurationError
                                    (varName @ '' must be <= '' @ showInt hi @ '', got: '' @
                                     showInt parsed))
                          | None \<Rightarrow> Inr (Some parsed)))))"

text \<open>The test \<open>if (n)\<close> on a \<open>number | undefined\<close>.\<close>

definition numTruthy :: "int option \<Rightarrow> bool" where
  "numTruthy n = (case n of None \<Rightarrow> False | Some i \<Rightarrow> i \<noteq> 0)"

section \<open>Provider options from the environment\<close>

text \<open>
  \<open>buildProviderOptions\<close>, lines 109-356. A provider name is a string: the type
  \<open>ProviderName\<close> is erased at run time and \<open>AI_PROVIDER\<close> is cast to it unchecked.
  The parameter \<open>modelId\<close> is optional. Each case of the switch is a definition of its
  own, returning the \<open>options\<close> object it leaves behind.

  \<open>Number.parseFloat\<close> is a parameter \<open>pf\<close> of the model: \<open>pf s\<close> is the number read
  from \<open>s\<close>, and \<open>None\<close> when the result is \<open>NaN\<close> or infinite (the one call site
  rejects all three alike).
\<close>

definition idIncludes :: "string option \<Rightarrow> string \<Rightarrow> bool" where
  "idIncludes modelId sub = (case modelId of None \<Rightarrow> False | Some m \<Rightarrow> str_includes m sub)"

definition numProp :: "string \<Rightarrow> int option \<Rightarrow> object" where
  "numProp k n =
     (case n of None \<Rightarrow> [] | Some i \<Rightarrow> if i \<noteq> 0 then [(k, JNum (of_int i))] else [])"

text \<open>Lines 116-160.\<close>

definition buildProviderOptions_openai :: "env \<Rightarrow> string option \<Rightarrow> error + object" where
  "buildProviderOptions_openai e modelId =
     (let reasoningEffort = getenv e ''OPENAI_REASONING_EFFORT'';
          reasoningSummary = getenv e ''OPENAI_REASONING_SUMMARY''
      in if truthy modelId \<and>
            (idIncludes modelId ''o1'' \<or> idIncludes modelId ''o3'' \<or>
             idIncludes modelId ''gpt-5'')
         then Inr [(''openai'',
                    JObj ([(''reasoningSummary'',
                            jsStr (orElse reasoningSummary (Some ''detailed'')))] @
                          optProp ''reasoningEffort'' reasoningEffort))]
         else if truthy reasoningEffort \<or> truthy reasoningSummary
         then Inr [(''openai'',
                    JObj (optProp ''reasoningEffort'' reasoningEffort @
                          optProp ''reasoningSummary'' reasoningSummary))]
         else Inr [])"

text \<open>Lines 162-181.\<close>

definition buildProviderOptions_anthropic :: "env \<Rightarrow> string option \<Rightarrow> error + object" where
  "buildProviderOptions_anthropic e modelId =
     (case parseIntSafe (getenv e ''ANTHROPIC_THINKING_BUDGET_TOKENS'')
             ''ANTHROPIC_THINKING_BUDGET_TOKENS'' (Some 1024) (Some 64000) of
        Inl err \<Rightarrow> Inl err
      | Inr thinkingBudget \<Rightarrow>
          (let thinkingType = orElse (getenv e ''ANTHROPIC_THINKING_TYPE'') (Some ''enabled'')
           in if numTruthy thinkingBudget
              then Inr [(''anthropic'',
                         JObj [(''thinking'',
                                JObj ([(''type'', jsStr thinkingType)] @
                                      numProp ''budgetTokens'' thinkingBudget))])]
              else Inr []))"

text \<open>Lines 183-266.\<close>

definition googleTopP :: "(string \<Rightarrow> rat option) \<Rightarrow> env \<Rightarrow> error + object" where
  "googleTopP pf e =
     (case getenv e ''GOOGLE_TOP_P'' of
        None \<Rightarrow> Inr []
      | Some s \<Rightarrow>
          if s = [] then Inr []
          else (case pf s of
                  None \<Rightarrow>
                    Inl (ConfigurationError
                          (''GOOGLE_TOP_P must be a number between 0 and 1, got: '' @ s))
                | Some topP \<Rightarrow>
                    if topP < 0 \<or> topP > 1
                    then Inl (ConfigurationError
                               (''GOOGLE_TOP_P must be a number between 0 and 1, got: '' @ s))
                    else Inr [(''topP'', JNum topP)]))"

definition buildProviderOptions_google ::
  "(string \<Rightarrow> rat option) \<Rightarrow> env \<Rightarrow> string option \<Rightarrow> error + object" where
  "buildProviderOptions_google pf e modelId =
     (let reasoningEffort = getenv e ''GOOGLE_REASONING_EFFORT''
      in case parseIntSafe (getenv e ''GOOGLE_THINKING_BUDGET'') ''GOOGLE_THINKING_BUDGET''
                (Some 1024) (Some 100000) of
           Inl err \<Rightarrow> Inl err
         | Inr thinkingBudgetVal \<Rightarrow>
             (let thinkingLevel = getenv e ''GOOGLE_THINKING_LEVEL'';
                  options =
                    (if truthy modelId \<and>
                        (idIncludes modelId ''gemini-2'' \<or> idIncludes modelId ''gemini-3'' \<or>
                         idIncludes modelId ''gemini2'' \<or> idIncludes modelId ''gemini3'')
                     then [(''google'',
                            JObj [(''thinkingConfig'',
                                   JObj ([(''includeThoughts'', JBool True)] @
                                         (if numTruthy thinkingBudgetVal \<and>
                                             (idIncludes modelId ''2.5'' \<or>
                                              idIncludes modelId ''2-5'')
                                          then numProp ''thinkingBudget'' thinkingBudgetVal
                                          else if truthy thinkingLevel \<and>
                                                  (idIncludes modelId ''gemini-3'' \<or>
                                                   idIncludes modelId ''gemini3'')
                                          then [(''thinkingLevel'', jsStr thinkingLevel)]
                                          else [])))])]
                     else if truthy reasoningEffort
                     then [(''google'', JObj [(''reasoningEffort'', jsStr reasoningEffort)])]
                     else [])
              in case parseIntSafe (getenv e ''GOOGLE_CANDIDATE_COUNT'')
                        ''GOOGLE_CANDIDATE_COUNT'' (Some 1) (Some 8) of
                   Inl err \<Rightarrow> Inl err
                 | Inr candidateCount \<Rightarrow>
                     (case parseIntSafe (getenv e ''GOOGLE_TOP_K'') ''GOOGLE_TOP_K''
                             (Some 1) (Some 100) of
                        Inl err \<Rightarrow> Inl err
                      | Inr topK \<Rightarrow>
                          (case googleTopP pf e of
                             Inl err \<Rightarrow> Inl err
                           | Inr topP \<Rightarrow>
                               (let options_obj =
                                      numProp ''candidateCount'' candidateCount @
                                      numProp ''topK'' topK @ topP
                                in if options_obj \<noteq> []
                                   then Inr (setProp ''google''
                                              (JObj (spread
                                                      (objOrEmpty (map_of options ''google''))
                                                      options_obj))
                                              options)
                                   else Inr options)))))"

text \<open>Lines 268-288.\<close>

definition buildProviderOptions_azure :: "env \<Rightarrow> error + object" where
  "buildProviderOptions_azure e =
     (let reasoningEffort = getenv e ''AZURE_REASONING_EFFORT'';
          reasoningSummary = getenv e ''AZURE_REASONING_SUMMARY''
      in if truthy reasoningEffort \<or> truthy reasoningSummary
         then Inr [(''azure'',
                    JObj (optProp ''reasoningEffort'' reasoningEffort @
                          optProp ''reasoningSummary'' reasoningSummary))]
         else Inr [])"

text \<open>Lines 290-333.\<close>

definition buildProviderOptions_bedrock :: "env \<Rightarrow> string option \<Rightarrow> error + object" where
  "buildProviderOptions_bedrock e modelId =
     (case parseIntSafe (getenv e ''BEDROCK_REASONING_BUDGET_TOKENS'')
             ''BEDROCK_REASONING_BUDGET_TOKENS'' (Some 1024) (Some 64000) of
        Inl err \<Rightarrow> Inl err
      | Inr budgetTokens \<Rightarrow>
          (let reasoningEffort = getenv e ''BEDROCK_REASONING_EFFORT''
           in if truthy modelId \<and>
                 (numTruthy budgetTokens \<or> truthy reasoningEffort) \<and>
                 (idIncludes modelId ''claude'' \<or> idIncludes modelId ''anthropic'' \<or>
                  idIncludes modelId ''nova'' \<or> idIncludes modelId ''amazon'')
              then Inr [(''bedrock'',
                         JObj [(''reasoningConfig'',
                                JObj ([(''type'', JStr ''enabled'')] @
                                      (if numTruthy budgetTokens \<and>
                                          (idIncludes modelId ''claude'' \<or>
                                           idIncludes modelId ''anthropic'')
                                       then numProp ''budgetTokens'' budgetTokens
                                       else if truthy reasoningEffort \<and>
                                               (idIncludes modelId ''nova'' \<or>
                                                idIncludes modelId ''amazon'')
                                       then [(''maxReasoningEffort'', jsStr reasoningEffort)]
                                       else [])))])]
              else Inr []))"

text \<open>Lines 335-342.\<close>

definition buildProviderOptions_ollama :: "env \<Rightarrow> error + object" where
  "buildProviderOptions_ollama e =
     (if getenv e ''OLLAMA_ENABLE_THINKING'' = Some ''true''
      then Inr [(''ollama'', JObj [(''think'', JBool True)])]
      else Inr [])"

text \<open>The switch of lines 115-353 and the return of line 355.\<close>

definition buildProviderOptions ::
  "(string \<Rightarrow> rat option) \<Rightarrow> env \<Rightarrow> string \<Rightarrow> string option \<Rightarrow> error + object option" where
  "buildProviderOptions pf e provider modelId =
     (case (if provider = ''openai'' then buildProviderOptions_openai e modelId
            else if provider = ''anthropic'' then buildProviderOptions_anthropic e modelId
            else if provider = ''google'' then buildProviderOptions_google pf e modelId
            else if provider = ''azure'' then buildProviderOptions_azure e
            else if provider = ''bedrock'' then buildProviderOptions_bedrock e modelId
            else if provider = ''ollama'' then buildProviderOptions_ollama e
            else Inr []) of
        Inl err \<Rightarrow> Inl err
      | Inr options \<Rightarrow> Inr (if options \<noteq> [] then Some options else None))"

section \<open>The provider catalog\<close>

text \<open>
  The members of the type \<open>ProviderName\<close>, lines 11-25, \<open>ALLOWED_CLIENT_PROVIDERS\<close>,
  lines 42-55, and \<open>PROVIDER_ENV_VARS\<close>, lines 359-374, in the order of the source.
  A lookup \<open>PROVIDER_ENV_VARS[p]\<close> is modelled on the table's own keys; the names a
  JavaScript object inherits from \<open>Object.prototype\<close> are not modelled.
\<close>

definition ProviderName :: "string list" where
  "ProviderName =
     [''bedrock'', ''openai'', ''anthropic'', ''google'', ''azure'', ''ollama'',
      ''openrouter'', ''deepseek'', ''siliconflow'', ''glm'', ''qwen'', ''doubao'',
      ''qiniu'', ''kimi'']"

definition ALLOWED_CLIENT_PROVIDERS :: "string list" where
  "ALLOWED_CLIENT_PROVIDERS =
     [''openai'', ''anthropic'', ''google'', ''azure'', ''openrouter'', ''deepseek'',
      ''siliconflow'', ''glm'', ''qwen'', ''doubao'', ''qiniu'', ''kimi'']"

definition PROVIDER_ENV_VARS :: "(string \<times> string option) list" where
  "PROVIDER_ENV_VARS =
     [(''bedrock'', None),
      (''openai'', Some ''OPENAI_API_KEY''),
      (''anthropic'', Some ''ANTHROPIC_API_KEY''),
      (''google'', Some ''GOOGLE_GENERATIVE_AI_API_KEY''),
      (''azure'', Some ''AZURE_API_KEY''),
      (''ollama'', None),
      (''openrouter'', Some ''OPENROUTER_API_KEY''),
      (''deepseek'', Some ''DEEPSEEK_API_KEY''),
      (''siliconflow'', Some ''SILICONFLOW_API_KEY''),
      (''glm'', Some ''GLM_API_KEY''),
      (''qwen'', Some ''QWEN_API_KEY''),
      (''doubao'', Some ''DOUBAO_API_KEY''),
      (''qiniu'', Some ''QINIU_API_KEY''),
      (''kimi'', Some ''KIMI_API_KEY'')]"

definition BEDROCK_ANTHROPIC_BETA :: object where
  "BEDROCK_ANTHROPIC_BETA =
     [(''bedrock'',
       JObj [(''anthropicBeta'', JArr [JStr ''fine-grained-tool-streaming-2025-05-14''])])]"

definition ANTHROPIC_BETA_HEADERS :: "(string \<times> string) list" where
  "ANTHROPIC_BETA_HEADERS = [(''anthropic-beta'', ''fine-grained-tool-streaming-2025-05-14'')]"

section \<open>Auto-detection and credential validation\<close>

text \<open>
  \<open>detectProvider\<close>, lines 380-407. \<open>detectStep\<close> is the body of the loop for one entry
  of the table: what it pushes on \<open>configuredProviders\<close>.
\<close>

definition detectStep :: "env \<Rightarrow> string \<times> string option \<Rightarrow> string list" where
  "detectStep e entry =
     (case snd entry of
        None \<Rightarrow> []
      | Some envVar \<Rightarrow>
          if truthy (getenv e envVar) then
            (if fst entry = ''azure'' then
               (if truthy (getenv e ''AZURE_BASE_URL'') \<or> truthy (getenv e ''AZURE_RESOURCE_NAME'')
                then [fst entry] else [])
             else [fst entry])
          else [])"

definition configuredProviders :: "env \<Rightarrow> string list" where
  "configuredProviders e = concat (map (detectStep e) PROVIDER_ENV_VARS)"

definition detectProvider :: "env \<Rightarrow> string option" where
  "detectProvider e =
     (case configuredProviders e of [p] \<Rightarrow> Some p | _ \<Rightarrow> None)"

text \<open>
  \<open>validateProviderCredentials\<close>, lines 412-432; \<open>azureEndpointCheck\<close> is its second
  statement, lines 422-431.
\<close>

definition azureEndpointCheck :: "env \<Rightarrow> string \<Rightarrow> error + unit" where
  "azureEndpointCheck e provider =
     (if provider = ''azure'' \<and>
         \<not> truthy (getenv e ''AZURE_BASE_URL'') \<and>
         \<not> truthy (getenv e ''AZURE_RESOURCE_NAME'')
      then Inl (CredentialError
                 (''Azure requires either AZURE_BASE_URL or AZURE_RESOURCE_NAME to be set. '' @
                  ''Please set one in your .env.local file.''))
      else Inr ())"

definition validateProviderCredentials :: "env \<Rightarrow> string \<Rightarrow> error + unit" where
  "validateProviderCredentials e provider =
     (let requiredVar = (case map_of PROVIDER_ENV_VARS provider of
                           None \<Rightarrow> None | Some v \<Rightarrow> v)
      in ifTruthy requiredVar
           (\<lambda>rv. if \<not> truthy (getenv e rv)
                 then Inl (CredentialError
                            (rv @ '' environment variable is required for '' @ provider @
                             '' provider. Please set it in your .env.local file.''))
                 else azureEndpointCheck e provider)
           (azureEndpointCheck e provider))"

section \<open>Resolution\<close>

text \<open>
  \<open>ClientOverrides\<close>, lines 34-39, and \<open>ModelConfig\<close>, lines 27-32. The fields carry a
  prefix, so that the local variables of the source keep their names. The parameter
  \<open>overrides\<close> is optional: \<open>ov f overrides\<close> is \<open>overrides?.f\<close>.
\<close>

record ClientOverrides =
  ov_provider :: "string option"
  ov_baseUrl :: "string option"
  ov_apiKey :: "string option"
  ov_modelId :: "string option"

definition ov :: "(ClientOverrides \<Rightarrow> string option) \<Rightarrow> ClientOverrides option \<Rightarrow> string option" where
  "ov f overrides = (case overrides of None \<Rightarrow> None | Some x \<Rightarrow> f x)"

text \<open>
  The field \<open>model\<close> is what an SDK returned. The model records how it was obtained:
  the SDK function called, its settings object (\<open>None\<close> for the SDK's default
  instance, as in \<open>openai(modelId)\<close>), whether the \<open>.chat\<close> method made the model, and
  the identifier passed.
\<close>

record model_ref =
  factory :: string
  settings :: "object option"
  chat :: bool
  target :: string

record ModelConfig =
  cfg_model :: model_ref
  cfg_providerOptions :: "object option"
  cfg_headers :: "(string \<times> string) list option"
  cfg_modelId :: string

text \<open>The security gate, lines 469-474.\<close>

definition securityGate :: "ClientOverrides option \<Rightarrow> error + unit" where
  "securityGate overrides =
     (if truthy (ov ov_baseUrl overrides) \<and> \<not> truthy (ov ov_apiKey overrides)
      then Inl (SecurityError
                 (''API key is required when using a custom base URL. '' @
                  ''Please provide your own API key in Settings.''))
      else Inr ())"

text \<open>Line 477.\<close>

definition isClientOverride :: "ClientOverrides option \<Rightarrow> bool" where
  "isClientOverride overrides =
     (truthy (ov ov_provider overrides) \<and> truthy (ov ov_apiKey overrides))"

text \<open>The model identifier, lines 480-491.\<close>

definition resolveModelId :: "env \<Rightarrow> ClientOverrides option \<Rightarrow> error + string" where
  "resolveModelId e overrides =
     ifTruthy (orElse (ov ov_modelId overrides) (getenv e ''AI_MODEL''))
       (\<lambda>modelId. Inr modelId)
       (if isClientOverride overrides
        then Inl (ConfigurationError
                   ''Model ID is required when using custom AI provider. Please specify a model in Settings.'')
        else Inl (ConfigurationError
                   ''AI_MODEL environment variable is required. Example: AI_MODEL=claude-sonnet-4-5''))"

text \<open>
  The choice of the provider, lines 494-541. \<open>configured\<close> is the list of lines
  516-518, computed for the error message when \<open>detectProvider\<close> returns \<open>null\<close>.
\<close>

definition configured :: "env \<Rightarrow> string list" where
  "configured e =
     map fst
       (filter (\<lambda>entry. case snd entry of
                           None \<Rightarrow> False
                         | Some envVar \<Rightarrow> envVar \<noteq> [] \<and> truthy (getenv e envVar))
          PROVIDER_ENV_VARS)"

definition noProviderMessage :: string where
  "noProviderMessage =
     ''No AI provider configured. Please set one of the following API keys in your .env.local file:\<newline>'' @
     ''- DEEPSEEK_API_KEY for DeepSeek\<newline>'' @
     ''- OPENAI_API_KEY for OpenAI\<newline>'' @
     ''- ANTHROPIC_API_KEY for Anthropic\<newline>'' @
     ''- GOOGLE_GENERATIVE_AI_API_KEY for Google\<newline>'' @
     ''- AWS_ACCESS_KEY_ID for Bedrock\<newline>'' @
     ''- OPENROUTER_API_KEY for OpenRouter\<newline>'' @
     ''- AZURE_API_KEY for Azure\<newline>'' @
     ''- SILICONFLOW_API_KEY for SiliconFlow\<newline>'' @
     ''- KIMI_API_KEY for Kimi\<newline>'' @
     ''Or set AI_PROVIDER=ollama for local Ollama.''"

definition autoDetect :: "env \<Rightarrow> error + string" where
  "autoDetect e =
     (case detectProvider e of
        Some detected \<Rightarrow> Inr detected
      | None \<Rightarrow>
          if configured e = [] then Inl (NoProviderConfiguredError noProviderMessage)
          else Inl (AmbiguousProviderError
                     (''Multiple AI providers configured ('' @ join '', '' (configured e) @ ''). '' @
                      ''Please set AI_PROVIDER to specify which one to use.'')))"

definition selectProvider :: "env \<Rightarrow> ClientOverrides option \<Rightarrow> error + string" where
  "selectProvider e overrides =
     ifTruthy (ov ov_provider overrides)
       (\<lambda>p. if p \<notin> set ALLOWED_CLIENT_PROVIDERS
            then Inl (UnsupportedProviderError
                       (''Invalid provider: '' @ p @ ''. Allowed providers: '' @
                        join '', '' ALLOWED_CLIENT_PROVIDERS))
            else Inr p)
       (ifTruthy (getenv e ''AI_PROVIDER'') (\<lambda>p. Inr p) (autoDetect e))"

text \<open>
  The switch of lines 557-775: the model, and the \<open>providerOptions\<close> and \<open>headers\<close>
  it sets. \<open>viaSdk\<close> is the pattern of the providers with a default SDK instance,
  \<open>viaOpenAICompatible\<close> that of the providers reached through \<open>createOpenAI\<close> with a
  default endpoint.
\<close>

definition viaSdk ::
  "string \<Rightarrow> string \<Rightarrow> bool \<Rightarrow> string option \<Rightarrow> string option \<Rightarrow> ClientOverrides option \<Rightarrow>
   string \<Rightarrow> model_ref" where
  "viaSdk dflt create useChat apiKey baseURL overrides modelId =
     (if truthy baseURL \<or> truthy (ov ov_apiKey overrides)
      then \<lparr>factory = create,
            settings = Some ([(''apiKey'', jsStr apiKey)] @ optProp ''baseURL'' baseURL),
            chat = useChat, target = modelId\<rparr>
      else \<lparr>factory = dflt, settings = None, chat = False, target = modelId\<rparr>)"

definition viaOpenAICompatible ::
  "env \<Rightarrow> ClientOverrides option \<Rightarrow> string \<Rightarrow> string \<Rightarrow> string \<Rightarrow> string \<Rightarrow> model_ref" where
  "viaOpenAICompatible e overrides keyVar urlVar defaultUrl modelId =
     (let apiKey = orElse (ov ov_apiKey overrides) (getenv e keyVar);
          baseURL = orElse (orElse (ov ov_baseUrl overrides) (getenv e urlVar)) (Some defaultUrl)
      in \<lparr>factory = ''createOpenAI'',
           settings = Some [(''apiKey'', jsStr apiKey), (''baseURL'', jsStr baseURL)],
           chat = True, target = modelId\<rparr>)"

definition switchProvider ::
  "env \<Rightarrow> ClientOverrides option \<Rightarrow> string \<Rightarrow> string \<Rightarrow> object option \<Rightarrow>
   error + model_ref \<times> object option \<times> (string \<times> string) list option" where
  "switchProvider e overrides provider modelId customProviderOptions =
     (if provider = ''bedrock'' then
        Inr (\<lparr>factory = ''createAmazonBedrock'',
              settings = Some [(''region'', jsStr (orElse (getenv e ''AWS_REGION'') (Some ''us-west-2''))),
                               (''credentialProvider'', JOpaque ''fromNodeProviderChain()'')],
              chat = False, target = modelId\<rparr>,
             (if str_includes modelId ''anthropic.claude''
              then Some [(''bedrock'',
                          JObj (spread (objOrEmpty (map_of BEDROCK_ANTHROPIC_BETA ''bedrock''))
                                  (objOrEmpty
                                    (case customProviderOptions of
                                       None \<Rightarrow> None
                                     | Some opts \<Rightarrow> map_of opts ''bedrock''))))]
              else customProviderOptions),
             None)
      else if provider = ''openai'' then
        Inr (viaSdk ''openai'' ''createOpenAI'' True
               (orElse (ov ov_apiKey overrides) (getenv e ''OPENAI_API_KEY''))
               (orElse (ov ov_baseUrl overrides) (getenv e ''OPENAI_BASE_URL''))
               overrides modelId,
             None, None)
      else if provider = ''anthropic'' then
        Inr (\<lparr>factory = ''createAnthropic'',
              settings =
                Some [(''apiKey'',
                       jsStr (orElse (ov ov_apiKey overrides) (getenv e ''ANTHROPIC_API_KEY''))),
                      (''baseURL'',
                       jsStr (orElse (orElse (ov ov_baseUrl overrides)
                                        (getenv e ''ANTHROPIC_BASE_URL''))
                                (Some ''https://api.anthropic.com/v1''))),
                      (''headers'', JObj (map (\<lambda>h. (fst h, JStr (snd h))) ANTHROPIC_BETA_HEADERS))],
              chat = False, target = modelId\<rparr>,
             None, Some ANTHROPIC_BETA_HEADERS)
      else if provider = ''google'' then
        Inr (viaSdk ''google'' ''createGoogleGenerativeAI'' False
               (orElse (ov ov_apiKey overrides) (getenv e ''GOOGLE_GENERATIVE_AI_API_KEY''))
               (orElse (ov ov_baseUrl overrides) (getenv e ''GOOGLE_BASE_URL''))
               overrides modelId,
             None, None)
      else if provider = ''azure'' then
        (let apiKey = orElse (ov ov_apiKey overrides) (getenv e ''AZURE_API_KEY'');
             baseURL = orElse (ov ov_baseUrl overrides) (getenv e ''AZURE_BASE_URL'');
             resourceName = getenv e ''AZURE_RESOURCE_NAME''
         in Inr ((if truthy baseURL \<or> truthy resourceName \<or> truthy (ov ov_apiKey overrides)
                  then \<lparr>factory = ''createAzure'',
                        settings =
                          Some ([(''apiKey'', jsStr apiKey)] @ optProp ''baseURL'' baseURL @
                                (if \<not> truthy baseURL then optProp ''resourceName'' resourceName
                                 else [])),
                        chat = False, target = modelId\<rparr>
                  else \<lparr>factory = ''azure'', settings = None, chat = False, target = modelId\<rparr>),
                 None, None))
      else if provider = ''ollama'' then
        Inr ((if truthy (getenv e ''OLLAMA_BASE_URL'')
              then \<lparr>factory = ''createOllama'',
                    settings = Some [(''baseURL'', jsStr (getenv e ''OLLAMA_BASE_URL''))],
                    chat = False, target = modelId\<rparr>
              else \<lparr>factory = ''ollama'', settings = None, chat = False, target = modelId\<rparr>),
             None, None)
      else if provider = ''openrouter'' then
        Inr (\<lparr>factory = ''createOpenRouter'',
              settings =
                Some ([(''apiKey'',
                        jsStr (orElse (ov ov_apiKey overrides) (getenv e ''OPENROUTER_API_KEY'')))] @
                      optProp ''baseURL''
                        (orElse (ov ov_baseUrl overrides) (getenv e ''OPENROUTER_BASE_URL''))),
              chat = False, target = modelId\<rparr>,
             None, None)
      else if provider = ''deepseek'' then
        Inr (viaSdk ''deepseek'' ''createDeepSeek'' False
               (orElse (ov ov_apiKey overrides) (getenv e ''DEEPSEEK_API_KEY''))
               (orElse (ov ov_baseUrl overrides) (getenv e ''DEEPSEEK_BASE_URL''))
               overrides modelId,
             None, None)
      else if provider = ''siliconflow'' then
        Inr (viaOpenAICompatible e overrides ''SILICONFLOW_API_KEY'' ''SILICONFLOW_BASE_URL''
               ''https://api.siliconflow.com/v1'' modelId, None, None)
      else if provider = ''glm'' then
        Inr (viaOpenAICompatible e overrides ''GLM_API_KEY'' ''GLM_BASE_URL''
               ''https://open.bigmodel.cn/api/paas/v4'' modelId, None, None)
      else if provider = ''qwen'' then
        Inr (viaOpenAICompatible e overrides ''QWEN_API_KEY'' ''QWEN_BASE_URL''
               ''https://dashscope.aliyun.com/compatible-mode/v1'' modelId, None, None)
      else if provider = ''doubao'' then
        Inr (viaOpenAICompatible e overrides ''DOUBAO_API_KEY'' ''DOUBAO_BASE_URL''
               ''https://ark.cn-beijing.volces.com/api/v3'' modelId, None, None)
      else if provider = ''qiniu'' then
        Inr (viaOpenAICompatible e overrides ''QINIU_API_KEY'' ''QINIU_BASE_URL''
               ''https://api.qiniucdn.com/v1'' modelId, None, None)
      else if provider = ''kimi'' then
        Inr (viaOpenAICompatible e overrides ''KIMI_API_KEY'' ''KIMI_BASE_URL''
               ''https://api.moonshot.cn/v1'' modelId, None, None)
      else
        Inl (UnsupportedProviderError
              (''Unknown AI provider: '' @ provider @
               ''. Supported providers: bedrock, openai, anthropic, google, azure, ollama, openrouter, deepseek, siliconflow, glm, qwen, doubao, qiniu, kimi'')))"

text \<open>
  \<open>getAIModel\<close>, lines 465-783: the gate, the model identifier, the provider, the
  server credentials unless the client brings its own, the options from the
  environment, the switch, and the options of the providers other than bedrock
  (lines 778-780).
\<close>

definition getAIModel ::
  "(string \<Rightarrow> rat option) \<Rightarrow> env \<Rightarrow> ClientOverrides option \<Rightarrow> error + ModelConfig" where
  "getAIModel pf e overrides =
     (case securityGate overrides of
        Inl err \<Rightarrow> Inl err
      | Inr u \<Rightarrow>
     (case resolveModelId e overrides of
        Inl err \<Rightarrow> Inl err
      | Inr modelId \<Rightarrow>
     (case selectProvider e overrides of
        Inl err \<Rightarrow> Inl err
      | Inr provider \<Rightarrow>
     (case (if \<not> isClientOverride overrides then validateProviderCredentials e provider
            else Inr ()) of
        Inl err \<Rightarrow> Inl err
      | Inr u' \<Rightarrow>
     (case buildProviderOptions pf e provider (Some modelId) of
        Inl err \<Rightarrow> Inl err
      | Inr customProviderOptions \<Rightarrow>
     (case switchProvider e overrides provider modelId customProviderOptions of
        Inl err \<Rightarrow> Inl err
      | Inr (model, providerOptions, headers) \<Rightarrow>
          Inr \<lparr>cfg_model = model,
               cfg_providerOptions =
                 (if customProviderOptions \<noteq> None \<and> provider \<noteq> ''bedrock'' \<and>
                     providerOptions = None
                  then customProviderOptions else providerOptions),
               cfg_headers = headers,
               cfg_modelId = modelId\<rparr>))))))"

section \<open>Prompt caching classification\<close>

text \<open>\<open>supportsPromptCaching\<close>, lines 789-797.\<close>

definition supportsPromptCaching :: "string \<Rightarrow> bool" where
  "supportsPromptCaching modelId =
     (str_includes modelId ''claude'' \<or>
      str_includes modelId ''anthropic'' \<or>
      str_startsWith modelId ''us.anthropic'' \<or>
      str_startsWith modelId ''eu.anthropic'')"

section \<open>Example inputs\<close>

text \<open>
  An instance of the parameter \<open>pf\<close> for the examples, none of which sets
  \<open>GOOGLE_TOP_P\<close>: it is never applied there.
\<close>

definition noFloat :: "string \<Rightarrow> rat option" where
  "noFloat s = None"

section \<open>Facts about the string operations\<close>

lemma str_startsWith_iff: "str_startsWith s p \<longleftrightarrow> (\<exists>b. s = p @ b)"
  by (induction s p rule: str_startsWith.induct) auto

lemma str_includes_iff: "str_includes s sub \<longleftrightarrow> (\<exists>a b. s = a @ sub @ b)"
proof (induction s)
  case Nil
  show ?case by (simp add: str_startsWith_iff)
next
  case (Cons c cs)
  show ?case
  proof
    assume "str_includes (c # cs) sub"
    then consider "str_startsWith (c # cs) sub" | "str_includes cs sub" by auto
    then show "\<exists>a b. c # cs = a @ sub @ b"
    proof cases
      case 1
      then obtain b where "c # cs = sub @ b" by (auto simp: str_startsWith_iff)
      then have "c # cs = [] @ sub @ b" by simp
      then show ?thesis by blast
    next
      case 2
      then obtain a b where "cs = a @ sub @ b" using Cons.IH by blast
      then have "c # cs = (c # a) @ sub @ b" by simp
      then show ?thesis by blast
    qed
  next
    assume "\<exists>a b. c # cs = a @ sub @ b"
    then obtain a b where ab: "c # cs = a @ sub @ b" by blast
    show "str_includes (c # cs) sub"
    proof (cases a)
      case Nil
      with ab have "str_startsWith (c # cs) sub" by (auto simp: str_startsWith_iff)
      then show ?thesis by simp
    next
      case (Cons x a')
      with ab have "cs = a' @ sub @ b" by simp
      then have "str_includes cs sub" using Cons.IH by blast
      then show ?thesis by simp
    qed
  qed
qed

lemma str_startsWith_includes:
  assumes "str_startsWith s (pre @ sub)"
  shows "str_includes s sub"
proof -
  from assms obtain b where "s = pre @ sub @ b" by (auto simp: str_startsWith_iff)
  then show ?thesis unfolding str_includes_iff by blast
qed

section \<open>The error classes of each stage\<close>

lemma if_Inr_neq_Inl: "((if c then Inr a else Inr b) = Inl err) = False"
  by simp

lemma parseIntSafe_error:
  "parseIntSafe v n mn mx = Inl err \<Longrightarrow> \<exists>msg. err = ConfigurationError msg"
  by (auto simp: parseIntSafe_def split: option.splits if_splits)

lemma googleTopP_error:
  "googleTopP pf e = Inl err \<Longrightarrow> \<exists>msg. err = ConfigurationError msg"
  by (auto simp: googleTopP_def split: option.splits if_splits)

lemma buildProviderOptions_openai_total:
  "\<exists>opts. buildProviderOptions_openai e m = Inr opts"
  by (simp add: buildProviderOptions_openai_def Let_def)

lemma buildProviderOptions_anthropic_error:
  "buildProviderOptions_anthropic e m = Inl err \<Longrightarrow> \<exists>msg. err = ConfigurationError msg"
  unfolding buildProviderOptions_anthropic_def Let_def
  by (auto simp: if_Inr_neq_Inl split: sum.splits dest: parseIntSafe_error)

lemma buildProviderOptions_google_error:
  "buildProviderOptions_google pf e m = Inl err \<Longrightarrow> \<exists>msg. err = ConfigurationError msg"
  unfolding buildProviderOptions_google_def Let_def
  by (auto simp: if_Inr_neq_Inl split: sum.splits dest: parseIntSafe_error googleTopP_error)

lemma buildProviderOptions_bedrock_error:
  "buildProviderOptions_bedrock e m = Inl err \<Longrightarrow> \<exists>msg. err = ConfigurationError msg"
  unfolding buildProviderOptions_bedrock_def Let_def
  by (auto simp: if_Inr_neq_Inl split: sum.splits dest: parseIntSafe_error)

lemma buildProviderOptions_error:
  "buildProviderOptions pf e p m = Inl err \<Longrightarrow> \<exists>msg. err = ConfigurationError msg"
  unfolding buildProviderOptions_def
  using buildProviderOptions_openai_total [of e m]
  by (auto simp: buildProviderOptions_azure_def buildProviderOptions_ollama_def Let_def
      split: sum.splits if_splits
      dest: buildProviderOptions_anthropic_error buildProviderOptions_google_error
        buildProviderOptions_bedrock_error)

lemma resolveModelId_error:
  "resolveModelId e overrides = Inl err \<Longrightarrow> \<exists>msg. err = ConfigurationError msg"
  by (auto simp: resolveModelId_def ifTruthy_def split: option.splits if_splits)

lemma selectProvider_error:
  "selectProvider e overrides = Inl err \<Longrightarrow>
     (\<exists>msg. err = UnsupportedProviderError msg) \<or> (\<exists>msg. err = NoProviderConfiguredError msg) \<or>
     (\<exists>msg. err = AmbiguousProviderError msg)"
  by (auto simp: selectProvider_def autoDetect_def ifTruthy_def split: option.splits if_splits)

lemma validateProviderCredentials_error:
  "validateProviderCredentials e p = Inl err \<Longrightarrow> \<exists>msg. err = CredentialError msg"
  by (auto simp: validateProviderCredentials_def azureEndpointCheck_def ifTruthy_def Let_def
      split: option.splits if_splits)

lemma switchProvider_error:
  "switchProvider e overrides p m c = Inl err \<Longrightarrow> \<exists>msg. err = UnsupportedProviderError msg"
  unfolding switchProvider_def Let_def
  by (auto split: if_splits)

lemma getAIModel_error_cases:
  assumes "getAIModel pf e overrides = Inl err"
  shows "securityGate overrides = Inl err \<or>
         (\<exists>msg. err = ConfigurationError msg) \<or> (\<exists>msg. err = UnsupportedProviderError msg) \<or>
         (\<exists>msg. err = NoProviderConfiguredError msg) \<or> (\<exists>msg. err = AmbiguousProviderError msg) \<or>
         (\<exists>msg. err = CredentialError msg)"
  using assms unfolding getAIModel_def
  by (auto split: sum.splits if_splits prod.splits
      dest: resolveModelId_error selectProvider_error validateProviderCredentials_error
        buildProviderOptions_error switchProvider_error)

section \<open>The catalog and the stages of a successful resolution\<close>

lemma allowed_in_catalog: "p \<in> set ALLOWED_CLIENT_PROVIDERS \<Longrightarrow> p \<in> set ProviderName"
  by (auto simp: ALLOWED_CLIENT_PROVIDERS_def ProviderName_def)

lemma detectStep_subset: "set (detectStep e entry) \<subseteq> {fst entry}"
  by (auto simp: detectStep_def split: option.splits if_splits)

lemma configuredProviders_catalog: "p \<in> set (configuredProviders e) \<Longrightarrow> p \<in> set ProviderName"
proof -
  assume "p \<in> set (configuredProviders e)"
  then obtain entry where en: "entry \<in> set PROVIDER_ENV_VARS" and "p \<in> set (detectStep e entry)"
    by (auto simp: configuredProviders_def)
  then have "p = fst entry" using detectStep_subset [of e entry] by auto
  with en have "p \<in> fst ` set PROVIDER_ENV_VARS" by auto
  then show ?thesis by (simp add: PROVIDER_ENV_VARS_def ProviderName_def)
qed

lemma detectProvider_catalog: "detectProvider e = Some p \<Longrightarrow> p \<in> set ProviderName"
proof -
  assume "detectProvider e = Some p"
  then have "configuredProviders e = [p]"
    by (auto simp: detectProvider_def split: list.splits)
  then have "p \<in> set (configuredProviders e)" by simp
  then show ?thesis by (rule configuredProviders_catalog)
qed

lemma autoDetect_catalog: "autoDetect e = Inr p \<Longrightarrow> p \<in> set ProviderName"
  by (auto simp: autoDetect_def split: option.splits if_splits dest: detectProvider_catalog)

lemma switchProvider_catalog:
  "switchProvider e overrides p m c = Inr r \<Longrightarrow> p \<in> set ProviderName"
  unfolding switchProvider_def Let_def ProviderName_def
  by (auto split: if_splits)

lemma detectStep_configured:
  assumes "entry \<in> set PROVIDER_ENV_VARS" and "p \<in> set (detectStep e entry)"
  shows "p \<in> set (configured e)"
proof -
  from assms(2) have "\<exists>envVar. snd entry = Some envVar \<and> truthy (getenv e envVar) \<and> p = fst entry"
    by (cases "snd entry") (auto simp: detectStep_def split: if_splits)
  then obtain envVar where sv: "snd entry = Some envVar" and tr: "truthy (getenv e envVar)"
    and p: "p = fst entry"
    by blast
  from assms(1) sv have "envVar \<noteq> []" by (auto simp: PROVIDER_ENV_VARS_def)
  with assms(1) sv tr p show ?thesis
    by (force simp: configured_def)
qed

lemma configuredProviders_subset: "set (configuredProviders e) \<subseteq> set (configured e)"
  by (auto simp: configuredProviders_def dest: detectStep_configured)

lemma autoDetect_by_count:
  "(configuredProviders e = [p] \<longrightarrow> autoDetect e = Inr p) \<and>
   (configured e = [] \<longrightarrow> autoDetect e = Inl (NoProviderConfiguredError noProviderMessage)) \<and>
   (2 \<le> length (configuredProviders e) \<longrightarrow>
      autoDetect e =
        Inl (AmbiguousProviderError
              (''Multiple AI providers configured ('' @ join '', '' (configured e) @ ''). '' @
               ''Please set AI_PROVIDER to specify which one to use.'')))"
proof (intro conjI impI)
  assume "configuredProviders e = [p]"
  then show "autoDetect e = Inr p" by (simp add: autoDetect_def detectProvider_def)
next
  assume c: "configured e = []"
  with configuredProviders_subset [of e] have "configuredProviders e = []" by simp
  with c show "autoDetect e = Inl (NoProviderConfiguredError noProviderMessage)"
    by (simp add: autoDetect_def detectProvider_def)
next
  assume l: "2 \<le> length (configuredProviders e)"
  then have d: "detectProvider e = None"
    by (auto simp: detectProvider_def split: list.splits)
  from l have "configuredProviders e \<noteq> []" by auto
  with configuredProviders_subset [of e] have "configured e \<noteq> []" by auto
  with d show "autoDetect e =
        Inl (AmbiguousProviderError
              (''Multiple AI providers configured ('' @ join '', '' (configured e) @ ''). '' @
               ''Please set AI_PROVIDER to specify which one to use.''))"
    by (simp add: autoDetect_def)
qed

lemma getAIModel_success_stages:
  assumes "getAIModel pf e overrides = Inr cfg"
  shows "\<exists>p m c r. resolveModelId e overrides = Inr m \<and> selectProvider e overrides = Inr p \<and>
           buildProviderOptions pf e p (Some m) = Inr c \<and>
           switchProvider e overrides p m c = Inr r \<and> cfg_modelId cfg = m"
  using assms unfolding getAIModel_def
  by (auto split: sum.splits prod.splits)

lemma str_includes_nonempty: "str_includes s sub \<Longrightarrow> sub \<noteq> [] \<Longrightarrow> s \<noteq> []"
  by (cases s; cases sub) auto

lemma validate_azure_no_endpoint:
  assumes "truthy (getenv e ''AZURE_API_KEY'')"
    and "\<not> truthy (getenv e ''AZURE_BASE_URL'')"
    and "\<not> truthy (getenv e ''AZURE_RESOURCE_NAME'')"
  shows "validateProviderCredentials e ''azure'' =
     Inl (CredentialError
           ''Azure requires either AZURE_BASE_URL or AZURE_RESOURCE_NAME to be set. Please set one in your .env.local file.'')"
  using assms
  by (simp add: validateProviderCredentials_def PROVIDER_ENV_VARS_def ifTruthy_def
      azureEndpointCheck_def)

section \<open>Decimal numerals and \<open>parseInt\<close>\<close>

lemma digit_char: "d < 10 \<Longrightarrow> (of_char (char_of (48 + d :: nat)) :: nat) = 48 + d"
  by simp

lemma isDigit_digit_char: "d < 10 \<Longrightarrow> isDigit (char_of (48 + d :: nat))"
  by (simp add: isDigit_def)

lemma showNat_digits: "c \<in> set (showNat n) \<Longrightarrow> isDigit c"
proof (induction n arbitrary: c rule: showNat.induct)
  case (1 n)
  show ?case
  proof (cases "n < 10")
    case True
    with "1.prems" show ?thesis by (auto simp: showNat.simps [of n] isDigit_digit_char)
  next
    case False
    with "1.prems" have "c \<in> set (showNat (n div 10)) \<or> c = char_of (48 + n mod 10)"
      by (auto simp: showNat.simps [of n])
    then show ?thesis using "1.IH" [OF False] isDigit_digit_char [of "n mod 10"] by auto
  qed
qed

lemma showNat_nonempty: "showNat n \<noteq> []"
  by (simp add: showNat.simps [of n])

lemma digitsValue_snoc:
  "digitsValue (ds @ [c]) = 10 * digitsValue ds + (int (of_char c) - 48)"
  by (simp add: digitsValue_def)

lemma digitsValue_showNat: "digitsValue (showNat n) = int n"
proof (induction n rule: showNat.induct)
  case (1 n)
  show ?case
  proof (cases "n < 10")
    case True
    then show ?thesis by (simp add: showNat.simps [of n] digitsValue_def)
  next
    case False
    have "digitsValue (showNat n) = 10 * digitsValue (showNat (n div 10)) + int (n mod 10)"
      using False by (simp add: showNat.simps [of n] digitsValue_snoc)
    also have "\<dots> = 10 * int (n div 10) + int (n mod 10)" using "1.IH" [OF False] by simp
    also have "\<dots> = int n" by (simp add: zdiv_int zmod_int)
    finally show ?thesis .
  qed
qed

lemma isDigit_plain:
  "isDigit c \<Longrightarrow> \<not> isStrWhiteSpace c \<and> c \<noteq> CHR ''-'' \<and> c \<noteq> CHR ''+''"
  by (auto simp: isDigit_def isStrWhiteSpace_def)

lemma parseInt_digits:
  assumes "ds \<noteq> []" and "\<forall>c \<in> set ds. isDigit c"
  shows "parseInt ds = Some (digitsValue ds)"
proof -
  from assms obtain c cs where ds: "ds = c # cs" by (cases ds) auto
  with assms have c: "isDigit c" by simp
  from c ds have dw: "dropWhile isStrWhiteSpace ds = ds" using isDigit_plain [of c] by simp
  from assms have tw: "takeWhile isDigit ds = ds" by (simp add: takeWhile_eq_all_conv)
  have sg: "(case ds of [] \<Rightarrow> False | c # cs \<Rightarrow> c = CHR ''-'') = False"
    using ds isDigit_plain [OF c] by simp
  have rs: "(case ds of [] \<Rightarrow> [] | c # cs \<Rightarrow> if c = CHR ''-'' \<or> c = CHR ''+'' then cs else ds) = ds"
    using ds isDigit_plain [OF c] by simp
  show ?thesis
    unfolding parseInt_def dw Let_def sg rs tw using assms(1) by simp
qed

lemma parseInt_minus_digits:
  assumes "ds \<noteq> []" and "\<forall>c \<in> set ds. isDigit c"
  shows "parseInt (CHR ''-'' # ds) = Some (- digitsValue ds)"
proof -
  have dw: "dropWhile isStrWhiteSpace (CHR ''-'' # ds) = CHR ''-'' # ds"
    by (simp add: isStrWhiteSpace_def)
  from assms have tw: "takeWhile isDigit ds = ds" by (simp add: takeWhile_eq_all_conv)
  show ?thesis
    unfolding parseInt_def dw Let_def using assms(1) by (simp add: tw)
qed

lemma parseInt_showInt: "parseInt (showInt i) = Some i"
proof (cases "i < 0")
  case True
  then show ?thesis
    using parseInt_minus_digits [of "showNat (nat (- i))"] showNat_nonempty showNat_digits
    by (simp add: showInt_def digitsValue_showNat)
next
  case False
  then show ?thesis
    using parseInt_digits [of "showNat (nat i)"] showNat_nonempty showNat_digits
    by (simp add: showInt_def digitsValue_showNat)
qed

lemma showInt_nonempty: "showInt i \<noteq> []"
  by (simp add: showInt_def showNat_nonempty)

section \<open>Integer settings within their bounds\<close>

lemma parseIntSafe_cases:
  "parseIntSafe v name (Some lo) (Some hi) =
     (case v of
        None \<Rightarrow> Inr None
      | Some s \<Rightarrow>
          if s = [] then Inr None
          else (case parseInt s of
                  None \<Rightarrow> Inl (ConfigurationError (name @ '' must be a valid integer, got: '' @ s))
                | Some n \<Rightarrow>
                    if n < lo
                    then Inl (ConfigurationError
                               (name @ '' must be >= '' @ showInt lo @ '', got: '' @ showInt n))
                    else if hi < n
                    then Inl (ConfigurationError
                               (name @ '' must be <= '' @ showInt hi @ '', got: '' @ showInt n))
                    else Inr (Some n)))"
  by (simp add: parseIntSafe_def split: option.splits)

lemma parseIntSafe_in_range:
  "parseIntSafe v name (Some lo) (Some hi) = Inr (Some n) \<Longrightarrow>
     lo \<le> n \<and> n \<le> hi \<and> (\<exists>s. v = Some s \<and> s \<noteq> [] \<and> parseInt s = Some n)"
  by (auto simp: parseIntSafe_cases split: option.splits if_splits)

lemma anthropic_options:
  "buildProviderOptions pf e ''anthropic'' modelId =
     (case parseIntSafe (getenv e ''ANTHROPIC_THINKING_BUDGET_TOKENS'')
             ''ANTHROPIC_THINKING_BUDGET_TOKENS'' (Some 1024) (Some 64000) of
        Inl err \<Rightarrow> Inl err
      | Inr None \<Rightarrow> Inr None
      | Inr (Some n) \<Rightarrow>
          Inr (Some [(''anthropic'',
                 JObj [(''thinking'',
                        JObj [(''type'',
                               jsStr (orElse (getenv e ''ANTHROPIC_THINKING_TYPE'') (Some ''enabled''))),
                              (''budgetTokens'', JNum (of_int n))])])]))"
  by (auto simp: buildProviderOptions_def buildProviderOptions_anthropic_def Let_def
      numTruthy_def numProp_def split: sum.splits option.splits
      dest: parseIntSafe_in_range)

section \<open>The bedrock branch\<close>

lemma bedrock_from_environment:
  assumes "selectProvider e overrides = Inr ''bedrock''"
  shows "\<not> isClientOverride overrides"
  using assms
  by (auto simp: selectProvider_def isClientOverride_def ifTruthy_def truthy_def
      ALLOWED_CLIENT_PROVIDERS_def split: option.splits if_splits)

lemma validate_bedrock: "validateProviderCredentials e ''bedrock'' = Inr ()"
  by (simp add: validateProviderCredentials_def PROVIDER_ENV_VARS_def ifTruthy_def
      azureEndpointCheck_def)

lemma bedrock_claude_options:
  assumes "str_includes m ''anthropic.claude''"
    and "parseIntSafe (getenv e ''BEDROCK_REASONING_BUDGET_TOKENS'')
           ''BEDROCK_REASONING_BUDGET_TOKENS'' (Some 1024) (Some 64000) = Inr budget"
  shows "\<exists>c. buildProviderOptions pf e ''bedrock'' (Some m) = Inr c \<and>
           (case budget of
              None \<Rightarrow> c = None \<or> (\<exists>rc. c = Some [(''bedrock'', JObj [(''reasoningConfig'', rc)])])
            | Some n \<Rightarrow>
                c = Some [(''bedrock'',
                           JObj [(''reasoningConfig'',
                                  JObj [(''type'', JStr ''enabled''),
                                        (''budgetTokens'', JNum (of_int n))])])])"
proof -
  from assms(1) obtain a b where "m = a @ ''anthropic.claude'' @ b"
    unfolding str_includes_iff by blast
  then have "m = a @ ''anthropic'' @ (''.claude'' @ b)" by simp
  then have an: "str_includes m ''anthropic''" unfolding str_includes_iff by blast
  from assms(1) have ne: "m \<noteq> []" by (auto dest: str_includes_nonempty)
  show ?thesis
  proof (cases budget)
    case None
    with assms(2) an ne show ?thesis
      by (simp add: buildProviderOptions_def buildProviderOptions_bedrock_def Let_def
          idIncludes_def truthy_def numTruthy_def)
  next
    case (Some n)
    with assms(2) have "1024 \<le> n" by (auto dest: parseIntSafe_in_range)
    with Some assms(2) an ne show ?thesis
      by (simp add: buildProviderOptions_def buildProviderOptions_bedrock_def Let_def
          idIncludes_def truthy_def numTruthy_def numProp_def)
  qed
qed

lemma bedrock_options_shape:
  assumes "parseIntSafe (getenv e ''BEDROCK_REASONING_BUDGET_TOKENS'')
             ''BEDROCK_REASONING_BUDGET_TOKENS'' (Some 1024) (Some 64000) = Inr budget"
  shows "\<exists>c. buildProviderOptions pf e ''bedrock'' (Some m) = Inr c \<and>
           (c = None \<or> (\<exists>rc. c = Some [(''bedrock'', JObj [(''reasoningConfig'', rc)])]))"
  using assms
  by (simp add: buildProviderOptions_def buildProviderOptions_bedrock_def Let_def)

section \<open>Claims\<close>

text \<open>
  C1. A value is present when it is truthy: set, and not the empty string. For every
  environment and every \<open>ClientOverrides\<close> input, if \<open>baseUrl\<close> is present and
  \<open>apiKey\<close> is absent, the gate fails and \<open>getAIModel\<close> fails with the gate's
  \<open>SecurityError\<close>, whatever the model identifier, the provider, the credentials and
  the other settings are: no other check is reached first. If \<open>apiKey\<close> is present or
  \<open>baseUrl\<close> is absent, the gate passes with no effect, and no later stage raises a
  \<open>SecurityError\<close>.
\<close>

theorem security_gate_first:
  "(truthy (ov ov_baseUrl overrides) \<and> \<not> truthy (ov ov_apiKey overrides) \<longrightarrow>
      securityGate overrides =
        Inl (SecurityError
              ''API key is required when using a custom base URL. Please provide your own API key in Settings.'') \<and>
      getAIModel pf e overrides =
        Inl (SecurityError
              ''API key is required when using a custom base URL. Please provide your own API key in Settings.'')) \<and>
   (truthy (ov ov_apiKey overrides) \<or> \<not> truthy (ov ov_baseUrl overrides) \<longrightarrow>
      securityGate overrides = Inr () \<and>
      (\<forall>msg. getAIModel pf e overrides \<noteq> Inl (SecurityError msg)))"
proof (intro conjI impI)
  assume "truthy (ov ov_baseUrl overrides) \<and> \<not> truthy (ov ov_apiKey overrides)"
  then show g: "securityGate overrides =
        Inl (SecurityError
              ''API key is required when using a custom base URL. Please provide your own API key in Settings.'')"
    by (simp add: securityGate_def)
  then show "getAIModel pf e overrides =
        Inl (SecurityError
              ''API key is required when using a custom base URL. Please provide your own API key in Settings.'')"
    by (simp add: getAIModel_def)
next
  assume "truthy (ov ov_apiKey overrides) \<or> \<not> truthy (ov ov_baseUrl overrides)"
  then show g: "securityGate overrides = Inr ()"
    by (auto simp: securityGate_def)
  show "\<forall>msg. getAIModel pf e overrides \<noteq> Inl (SecurityError msg)"
  proof (intro allI notI)
    fix msg
    assume "getAIModel pf e overrides = Inl (SecurityError msg)"
    from getAIModel_error_cases [OF this] g show False by auto
  qed
qed

theorem security_gate_first_witness:
  "getAIModel noFloat [(''AI_PROVIDER'', ''openai''), (''OPENAI_API_KEY'', ''sk-server'')]
     (Some \<lparr>ov_provider = None, ov_baseUrl = Some ''https://evil.example'', ov_apiKey = None,
            ov_modelId = None\<rparr>) =
   Inl (SecurityError
         ''API key is required when using a custom base URL. Please provide your own API key in Settings.'') \<and>
   securityGate
     (Some \<lparr>ov_provider = None, ov_baseUrl = Some ''https://evil.example'',
            ov_apiKey = Some ''sk-client'', ov_modelId = None\<rparr>) = Inr ()"
proof -
  let ?bad = "Some \<lparr>ov_provider = None, ov_baseUrl = Some ''https://evil.example'',
                    ov_apiKey = None, ov_modelId = None\<rparr>"
  let ?good = "Some \<lparr>ov_provider = None, ov_baseUrl = Some ''https://evil.example'',
                     ov_apiKey = Some ''sk-client'', ov_modelId = None\<rparr>"
  have a: "truthy (ov ov_baseUrl ?bad) \<and> \<not> truthy (ov ov_apiKey ?bad)"
    by (simp add: truthy_def ov_def)
  have b: "truthy (ov ov_apiKey ?good) \<or> \<not> truthy (ov ov_baseUrl ?good)"
    by (simp add: truthy_def ov_def)
  from a b
    security_gate_first [of ?bad noFloat
      "[(''AI_PROVIDER'', ''openai''), (''OPENAI_API_KEY'', ''sk-server'')]"]
    security_gate_first [of ?good noFloat "[]"]
  show ?thesis by blast
qed




text \<open>
  C3, at the failing input. Only \<open>AZURE_API_KEY\<close> is set, without \<open>AZURE_BASE_URL\<close>
  and \<open>AZURE_RESOURCE_NAME\<close>: no provider qualifies for auto-detection, and the claim
  asks for \<open>NoProviderConfiguredError\<close>. The list \<open>configured\<close> of lines 516-518 leaves
  out the Azure condition that \<open>detectProvider\<close> applies, so it holds \<open>azure\<close>, and the
  code reports multiple configured providers.
\<close>

theorem azure_key_alone_reported_as_multiple:
  "configuredProviders [(''AI_MODEL'', ''gpt-4o''), (''AZURE_API_KEY'', ''k'')] = [] \<and>
   detectProvider [(''AI_MODEL'', ''gpt-4o''), (''AZURE_API_KEY'', ''k'')] = None \<and>
   configured [(''AI_MODEL'', ''gpt-4o''), (''AZURE_API_KEY'', ''k'')] = [''azure''] \<and>
   selectProvider [(''AI_MODEL'', ''gpt-4o''), (''AZURE_API_KEY'', ''k'')] None =
     Inl (AmbiguousProviderError
           ''Multiple AI providers configured (azure). Please set AI_PROVIDER to specify which one to use.'') \<and>
   getAIModel noFloat [(''AI_MODEL'', ''gpt-4o''), (''AZURE_API_KEY'', ''k'')] None =
     Inl (AmbiguousProviderError
           ''Multiple AI providers configured (azure). Please set AI_PROVIDER to specify which one to use.'')"
  by code_simp

text \<open>
  C4. For every resolution that passes the gate, has a model identifier, selects Azure
  and is not a client override: if \<open>AZURE_API_KEY\<close> is present and neither
  \<open>AZURE_BASE_URL\<close> nor \<open>AZURE_RESOURCE_NAME\<close> is, \<open>getAIModel\<close> fails with the
  \<open>CredentialError\<close> of line 426. The selection may come from \<open>AI_PROVIDER\<close> or from
  \<open>overrides.provider\<close> given without a key; both are in the witness.
\<close>

theorem azure_requires_endpoint:
  assumes "securityGate overrides = Inr ()"
    and "resolveModelId e overrides = Inr m"
    and "selectProvider e overrides = Inr ''azure''"
    and "\<not> isClientOverride overrides"
    and "truthy (getenv e ''AZURE_API_KEY'')"
    and "\<not> truthy (getenv e ''AZURE_BASE_URL'')"
    and "\<not> truthy (getenv e ''AZURE_RESOURCE_NAME'')"
  shows "getAIModel pf e overrides =
     Inl (CredentialError
           ''Azure requires either AZURE_BASE_URL or AZURE_RESOURCE_NAME to be set. Please set one in your .env.local file.'')"
  using assms validate_azure_no_endpoint [of e]
  by (simp add: getAIModel_def)

theorem azure_requires_endpoint_witness:
  "getAIModel noFloat
     [(''AI_PROVIDER'', ''azure''), (''AI_MODEL'', ''gpt-4o''), (''AZURE_API_KEY'', ''k'')] None =
     Inl (CredentialError
           ''Azure requires either AZURE_BASE_URL or AZURE_RESOURCE_NAME to be set. Please set one in your .env.local file.'') \<and>
   getAIModel noFloat
     [(''AI_MODEL'', ''gpt-4o''), (''AZURE_API_KEY'', ''k'')]
     (Some \<lparr>ov_provider = Some ''azure'', ov_baseUrl = None, ov_apiKey = None,
            ov_modelId = None\<rparr>) =
     Inl (CredentialError
           ''Azure requires either AZURE_BASE_URL or AZURE_RESOURCE_NAME to be set. Please set one in your .env.local file.'')"
proof -
  let ?e1 = "[(''AI_PROVIDER'', ''azure''), (''AI_MODEL'', ''gpt-4o''), (''AZURE_API_KEY'', ''k'')]"
  let ?e2 = "[(''AI_MODEL'', ''gpt-4o''), (''AZURE_API_KEY'', ''k'')]"
  let ?o2 = "Some \<lparr>ov_provider = Some ''azure'', ov_baseUrl = None, ov_apiKey = None,
                   ov_modelId = None\<rparr>"
  have g1: "securityGate None = Inr ()" by code_simp
  have m1: "resolveModelId ?e1 None = Inr ''gpt-4o''" by code_simp
  have s1: "selectProvider ?e1 None = Inr ''azure''" by code_simp
  have c1: "\<not> isClientOverride None" by code_simp
  have k1: "truthy (getenv ?e1 ''AZURE_API_KEY'')" by code_simp
  have b1: "\<not> truthy (getenv ?e1 ''AZURE_BASE_URL'')" by code_simp
  have n1: "\<not> truthy (getenv ?e1 ''AZURE_RESOURCE_NAME'')" by code_simp
  have g2: "securityGate ?o2 = Inr ()" by code_simp
  have m2: "resolveModelId ?e2 ?o2 = Inr ''gpt-4o''" by code_simp
  have s2: "selectProvider ?e2 ?o2 = Inr ''azure''" by code_simp
  have c2: "\<not> isClientOverride ?o2" by code_simp
  have k2: "truthy (getenv ?e2 ''AZURE_API_KEY'')" by code_simp
  have b2: "\<not> truthy (getenv ?e2 ''AZURE_BASE_URL'')" by code_simp
  have n2: "\<not> truthy (getenv ?e2 ''AZURE_RESOURCE_NAME'')" by code_simp
  from azure_requires_endpoint [OF g1 m1 s1 c1 k1 b1 n1, of noFloat]
    azure_requires_endpoint [OF g2 m2 s2 c2 k2 b2 n2, of noFloat]
  show ?thesis by blast
qed

text \<open>
  C5, as the code has it. The claim says that the selector never yields a name outside
  the catalog. Line 508 takes \<open>AI_PROVIDER\<close> as it is: with \<open>AI_PROVIDER=foo\<close> the
  selector yields \<open>foo\<close>.
\<close>

theorem selector_verbatim_counterexample:
  "selectProvider [(''AI_PROVIDER'', ''foo'')] None = Inr ''foo'' \<and> ''foo'' \<notin> set ProviderName"
  by (simp add: selectProvider_def ifTruthy_def ov_def getenv_def ProviderName_def)

text \<open>
  C5, amended. The selector can yield a name outside the catalog, and only by taking it
  from \<open>AI_PROVIDER\<close>: a provider selected from \<open>overrides.provider\<close> or by
  auto-detection is always in the catalog. A name outside the catalog never governs a
  successful resolution: \<open>getAIModel\<close> fails on it (the default branch of the switch,
  line 771, when no earlier stage fails), so whenever \<open>getAIModel\<close> returns a
  descriptor, the selected provider is a member of the catalog.
\<close>

theorem resolved_provider_in_catalog:
  "(getAIModel pf e overrides = Inr cfg \<longrightarrow>
      (\<exists>p. selectProvider e overrides = Inr p \<and> p \<in> set ProviderName)) \<and>
   (selectProvider e overrides = Inr p \<and>
    (truthy (ov ov_provider overrides) \<or> \<not> truthy (getenv e ''AI_PROVIDER'')) \<longrightarrow>
      p \<in> set ProviderName) \<and>
   (selectProvider e overrides = Inr p \<and> p \<notin> set ProviderName \<longrightarrow>
      \<not> truthy (ov ov_provider overrides) \<and> getenv e ''AI_PROVIDER'' = Some p \<and>
      (\<exists>err. getAIModel pf e overrides = Inl err))"
proof (intro conjI impI)
  assume "getAIModel pf e overrides = Inr cfg"
  from getAIModel_success_stages [OF this]
  show "\<exists>p. selectProvider e overrides = Inr p \<and> p \<in> set ProviderName"
    by (auto dest: switchProvider_catalog)
next
  assume h: "selectProvider e overrides = Inr p \<and>
    (truthy (ov ov_provider overrides) \<or> \<not> truthy (getenv e ''AI_PROVIDER''))"
  then show "p \<in> set ProviderName"
    by (auto simp: selectProvider_def ifTruthy_def truthy_def
        split: option.splits if_splits dest: allowed_in_catalog autoDetect_catalog)
next
  assume h: "selectProvider e overrides = Inr p \<and> p \<notin> set ProviderName"
  then show "\<not> truthy (ov ov_provider overrides)"
    by (auto simp: selectProvider_def ifTruthy_def truthy_def
        split: option.splits if_splits dest: allowed_in_catalog)
  from h show "getenv e ''AI_PROVIDER'' = Some p"
    by (auto simp: selectProvider_def ifTruthy_def truthy_def
        split: option.splits if_splits dest: allowed_in_catalog autoDetect_catalog)
  show "\<exists>err. getAIModel pf e overrides = Inl err"
  proof (cases "getAIModel pf e overrides")
    case (Inl err)
    then show ?thesis by blast
  next
    case (Inr cfg)
    from getAIModel_success_stages [OF this] h show ?thesis
      by (auto dest: switchProvider_catalog)
  qed
qed

theorem resolved_provider_in_catalog_witness:
  "(\<exists>p. selectProvider [(''AI_MODEL'', ''gpt-4o''), (''OPENAI_API_KEY'', ''sk-server'')] None = Inr p \<and>
        p \<in> set ProviderName) \<and>
   (\<exists>err. getAIModel noFloat [(''AI_MODEL'', ''gpt-4o''), (''AI_PROVIDER'', ''foo'')] None = Inl err)"
proof -
  let ?e = "[(''AI_MODEL'', ''gpt-4o''), (''OPENAI_API_KEY'', ''sk-server'')]"
  let ?e' = "[(''AI_MODEL'', ''gpt-4o''), (''AI_PROVIDER'', ''foo'')]"
  have a: "getAIModel noFloat ?e None =
      Inr \<lparr>cfg_model = \<lparr>factory = ''openai'', settings = None, chat = False, target = ''gpt-4o''\<rparr>,
           cfg_providerOptions = None, cfg_headers = None, cfg_modelId = ''gpt-4o''\<rparr>"
    by code_simp
  have b: "selectProvider ?e' None = Inr ''foo'' \<and> ''foo'' \<notin> set ProviderName"
    by code_simp
  from a b resolved_provider_in_catalog [of noFloat ?e None _ "''foo''"]
    resolved_provider_in_catalog [of noFloat ?e' None _ "''foo''"]
  show ?thesis by blast
qed

text \<open>
  C6. For the provider \<open>openai\<close>: for every model identifier that contains "o1", "o3"
  or "gpt-5", with no summary setting (\<open>OPENAI_REASONING_SUMMARY\<close> unset or empty), the
  options object is not empty and its \<open>reasoningSummary\<close> is "detailed"; it holds
  \<open>reasoningEffort\<close> as well when that is set. For every model identifier that
  contains none of the three, with neither setting present, there is no options object.
\<close>

theorem openai_reasoning_summary_default:
  "((str_includes m ''o1'' \<or> str_includes m ''o3'' \<or> str_includes m ''gpt-5'') \<and>
    \<not> truthy (getenv e ''OPENAI_REASONING_SUMMARY'') \<longrightarrow>
      buildProviderOptions pf e ''openai'' (Some m) =
        Inr (Some [(''openai'',
                    JObj ((''reasoningSummary'', JStr ''detailed'') #
                          optProp ''reasoningEffort'' (getenv e ''OPENAI_REASONING_EFFORT'')))])) \<and>
   (\<not> (str_includes m ''o1'' \<or> str_includes m ''o3'' \<or> str_includes m ''gpt-5'') \<and>
    \<not> truthy (getenv e ''OPENAI_REASONING_EFFORT'') \<and>
    \<not> truthy (getenv e ''OPENAI_REASONING_SUMMARY'') \<longrightarrow>
      buildProviderOptions pf e ''openai'' (Some m) = Inr None)"
proof (intro conjI impI)
  assume h: "(str_includes m ''o1'' \<or> str_includes m ''o3'' \<or> str_includes m ''gpt-5'') \<and>
    \<not> truthy (getenv e ''OPENAI_REASONING_SUMMARY'')"
  then have ne: "m \<noteq> []" by (auto dest: str_includes_nonempty)
  with h show "buildProviderOptions pf e ''openai'' (Some m) =
        Inr (Some [(''openai'',
                    JObj ((''reasoningSummary'', JStr ''detailed'') #
                          optProp ''reasoningEffort'' (getenv e ''OPENAI_REASONING_EFFORT'')))])"
    by (simp add: buildProviderOptions_def buildProviderOptions_openai_def Let_def
        idIncludes_def orElse_def jsStr_def truthy_def)
next
  assume "\<not> (str_includes m ''o1'' \<or> str_includes m ''o3'' \<or> str_includes m ''gpt-5'') \<and>
    \<not> truthy (getenv e ''OPENAI_REASONING_EFFORT'') \<and>
    \<not> truthy (getenv e ''OPENAI_REASONING_SUMMARY'')"
  then show "buildProviderOptions pf e ''openai'' (Some m) = Inr None"
    by (simp add: buildProviderOptions_def buildProviderOptions_openai_def Let_def
        idIncludes_def)
qed

theorem openai_reasoning_summary_default_witness:
  "buildProviderOptions noFloat [] ''openai'' (Some ''o3-mini'') =
     Inr (Some [(''openai'', JObj [(''reasoningSummary'', JStr ''detailed'')])]) \<and>
   buildProviderOptions noFloat [(''OPENAI_REASONING_EFFORT'', ''high'')] ''openai'' (Some ''gpt-5.1'') =
     Inr (Some [(''openai'', JObj [(''reasoningSummary'', JStr ''detailed''),
                                   (''reasoningEffort'', JStr ''high'')])]) \<and>
   buildProviderOptions noFloat [] ''openai'' (Some ''gpt-4o'') = Inr None"
proof -
  have a: "(str_includes ''o3-mini'' ''o1'' \<or> str_includes ''o3-mini'' ''o3'' \<or>
            str_includes ''o3-mini'' ''gpt-5'') \<and>
           \<not> truthy (getenv [] ''OPENAI_REASONING_SUMMARY'')"
    by (simp add: truthy_def getenv_def)
  have b: "(str_includes ''gpt-5.1'' ''o1'' \<or> str_includes ''gpt-5.1'' ''o3'' \<or>
            str_includes ''gpt-5.1'' ''gpt-5'') \<and>
           \<not> truthy (getenv [(''OPENAI_REASONING_EFFORT'', ''high'')] ''OPENAI_REASONING_SUMMARY'')"
    by (simp add: truthy_def getenv_def)
  have c: "\<not> (str_includes ''gpt-4o'' ''o1'' \<or> str_includes ''gpt-4o'' ''o3'' \<or>
              str_includes ''gpt-4o'' ''gpt-5'') \<and>
           \<not> truthy (getenv [] ''OPENAI_REASONING_EFFORT'') \<and>
           \<not> truthy (getenv [] ''OPENAI_REASONING_SUMMARY'')"
    by (simp add: truthy_def getenv_def)
  have o1: "optProp ''reasoningEffort'' (getenv [] ''OPENAI_REASONING_EFFORT'') = []"
    by (simp add: optProp_def truthy_def getenv_def)
  have o2: "optProp ''reasoningEffort''
              (getenv [(''OPENAI_REASONING_EFFORT'', ''high'')] ''OPENAI_REASONING_EFFORT'') =
            [(''reasoningEffort'', JStr ''high'')]"
    by (simp add: optProp_def truthy_def getenv_def jsStr_def)
  from openai_reasoning_summary_default [of "''o3-mini''" "[]" noFloat] a o1
  have r1: "buildProviderOptions noFloat [] ''openai'' (Some ''o3-mini'') =
     Inr (Some [(''openai'', JObj [(''reasoningSummary'', JStr ''detailed'')])])"
    by simp
  from openai_reasoning_summary_default
         [of "''gpt-5.1''" "[(''OPENAI_REASONING_EFFORT'', ''high'')]" noFloat] b o2
  have r2: "buildProviderOptions noFloat [(''OPENAI_REASONING_EFFORT'', ''high'')] ''openai''
              (Some ''gpt-5.1'') =
     Inr (Some [(''openai'', JObj [(''reasoningSummary'', JStr ''detailed''),
                                   (''reasoningEffort'', JStr ''high'')])])"
    by simp
  from openai_reasoning_summary_default [of "''gpt-4o''" "[]" noFloat] c
  have r3: "buildProviderOptions noFloat [] ''openai'' (Some ''gpt-4o'') = Inr None"
    by blast
  from r1 r2 r3 show ?thesis by blast
qed

text \<open>
  C7, as the code has it. The claim says that a value of \<open>OPENAI_REASONING_EFFORT\<close>
  outside the permitted levels makes resolution fail with \<open>ConfigurationError\<close>.
  The code casts the value and passes it on: with the value "bogus" resolution
  succeeds and the options carry it.
\<close>

theorem openai_effort_unvalidated_counterexample:
  "getAIModel noFloat
     [(''AI_MODEL'', ''gpt-4o''), (''OPENAI_API_KEY'', ''sk-oai''),
      (''OPENAI_REASONING_EFFORT'', ''bogus'')] None =
   Inr \<lparr>cfg_model = \<lparr>factory = ''openai'', settings = None, chat = False,
                      target = ''gpt-4o''\<rparr>,
        cfg_providerOptions =
          Some [(''openai'', JObj [(''reasoningEffort'', JStr ''bogus'')])],
        cfg_headers = None, cfg_modelId = ''gpt-4o''\<rparr> \<and>
   ''bogus'' \<notin> set [''minimal'', ''low'', ''medium'', ''high'']"
  by code_simp

text \<open>
  C7, amended. \<open>OPENAI_REASONING_EFFORT\<close> is not validated: building the options of
  the provider \<open>openai\<close> never fails, and every non-empty value of the setting is
  passed through unchanged as \<open>reasoningEffort\<close>, for every model identifier.
\<close>

theorem openai_effort_passthrough:
  "(\<exists>opts. buildProviderOptions pf e ''openai'' modelId = Inr opts) \<and>
   (getenv e ''OPENAI_REASONING_EFFORT'' = Some v \<and> v \<noteq> [] \<longrightarrow>
      (\<exists>obj. buildProviderOptions pf e ''openai'' modelId = Inr (Some [(''openai'', JObj obj)]) \<and>
             map_of obj ''reasoningEffort'' = Some (JStr v)))"
  by (auto simp: buildProviderOptions_def buildProviderOptions_openai_def Let_def
      optProp_def jsStr_def truthy_def)

theorem openai_effort_passthrough_witness:
  "\<exists>obj. buildProviderOptions noFloat [(''OPENAI_REASONING_EFFORT'', ''bogus'')] ''openai''
            (Some ''o3-mini'') = Inr (Some [(''openai'', JObj obj)]) \<and>
         map_of obj ''reasoningEffort'' = Some (JStr ''bogus'')"
proof -
  have "getenv [(''OPENAI_REASONING_EFFORT'', ''bogus'')] ''OPENAI_REASONING_EFFORT'' = Some ''bogus'' \<and>
        ''bogus'' \<noteq> []"
    by (simp add: getenv_def)
  with openai_effort_passthrough
         [of noFloat "[(''OPENAI_REASONING_EFFORT'', ''bogus'')]" "Some ''o3-mini''" "''bogus''"]
  show ?thesis by blast
qed

text \<open>
  C8, as the code has it. The claim says that the thinking budget is attached only if
  the model identifier matches the capable-model pattern, and that a non-numeric value
  is an error. The case \<open>anthropic\<close> (lines 162-181) never reads the model
  identifier: the budget is attached with no identifier at all, and for \<open>gpt-4o\<close>,
  which does not contain the names by which the module recognises Claude models
  elsewhere (lines 304-305). \<open>Number.parseInt\<close> reads the leading digits, so
  \<open>2048abc\<close> is accepted as 2048.
\<close>

theorem anthropic_budget_counterexample:
  "buildProviderOptions noFloat [(''ANTHROPIC_THINKING_BUDGET_TOKENS'', ''2048'')] ''anthropic'' None =
     Inr (Some [(''anthropic'',
            JObj [(''thinking'',
                   JObj [(''type'', JStr ''enabled''), (''budgetTokens'', JNum 2048)])])]) \<and>
   \<not> str_includes ''gpt-4o'' ''claude'' \<and> \<not> str_includes ''gpt-4o'' ''anthropic'' \<and>
   getAIModel noFloat
     [(''AI_PROVIDER'', ''anthropic''), (''AI_MODEL'', ''gpt-4o''), (''ANTHROPIC_API_KEY'', ''k''),
      (''ANTHROPIC_THINKING_BUDGET_TOKENS'', ''2048'')] None =
     Inr \<lparr>cfg_model =
            \<lparr>factory = ''createAnthropic'',
             settings =
               Some [(''apiKey'', JStr ''k''),
                     (''baseURL'', JStr ''https://api.anthropic.com/v1''),
                     (''headers'',
                      JObj [(''anthropic-beta'', JStr ''fine-grained-tool-streaming-2025-05-14'')])],
             chat = False, target = ''gpt-4o''\<rparr>,
          cfg_providerOptions =
            Some [(''anthropic'',
                   JObj [(''thinking'',
                          JObj [(''type'', JStr ''enabled''), (''budgetTokens'', JNum 2048)])])],
          cfg_headers = Some [(''anthropic-beta'', ''fine-grained-tool-streaming-2025-05-14'')],
          cfg_modelId = ''gpt-4o''\<rparr> \<and>
   buildProviderOptions noFloat [(''ANTHROPIC_THINKING_BUDGET_TOKENS'', ''2048abc'')] ''anthropic''
     (Some ''claude-sonnet-4-5'') =
     Inr (Some [(''anthropic'',
            JObj [(''thinking'',
                   JObj [(''type'', JStr ''enabled''), (''budgetTokens'', JNum 2048)])])])"
  by code_simp

text \<open>
  C8, amended. For the provider \<open>anthropic\<close> the result does not depend on the model
  identifier. With \<open>ANTHROPIC_THINKING_BUDGET_TOKENS\<close> absent (unset or empty) there
  is no options object. A value with no leading integer is a \<open>ConfigurationError\<close>.
  A value that is the decimal numeral of \<open>n\<close> is a \<open>ConfigurationError\<close> when
  \<open>n < 1024\<close> or \<open>n > 64000\<close>, and otherwise attaches the thinking object with
  \<open>budgetTokens = n\<close>. Whenever an options object is attached, the setting is present
  and the attached budget lies in 1024..64000: no value is clamped or defaulted.
\<close>

theorem anthropic_budget_any_model:
  "buildProviderOptions pf e ''anthropic'' modelId = buildProviderOptions pf e ''anthropic'' None \<and>
   (\<not> truthy (getenv e ''ANTHROPIC_THINKING_BUDGET_TOKENS'') \<longrightarrow>
      buildProviderOptions pf e ''anthropic'' modelId = Inr None) \<and>
   (getenv e ''ANTHROPIC_THINKING_BUDGET_TOKENS'' = Some s \<and> s \<noteq> [] \<and> parseInt s = None \<longrightarrow>
      (\<exists>msg. buildProviderOptions pf e ''anthropic'' modelId = Inl (ConfigurationError msg))) \<and>
   (getenv e ''ANTHROPIC_THINKING_BUDGET_TOKENS'' = Some (showInt n) \<and> (n < 1024 \<or> 64000 < n) \<longrightarrow>
      (\<exists>msg. buildProviderOptions pf e ''anthropic'' modelId = Inl (ConfigurationError msg))) \<and>
   (getenv e ''ANTHROPIC_THINKING_BUDGET_TOKENS'' = Some (showInt n) \<and> 1024 \<le> n \<and> n \<le> 64000 \<longrightarrow>
      buildProviderOptions pf e ''anthropic'' modelId =
        Inr (Some [(''anthropic'',
               JObj [(''thinking'',
                      JObj [(''type'',
                             jsStr (orElse (getenv e ''ANTHROPIC_THINKING_TYPE'') (Some ''enabled''))),
                            (''budgetTokens'', JNum (of_int n))])])])) \<and>
   (buildProviderOptions pf e ''anthropic'' modelId = Inr (Some opts) \<longrightarrow>
      truthy (getenv e ''ANTHROPIC_THINKING_BUDGET_TOKENS'') \<and>
      (\<exists>k. 1024 \<le> k \<and> k \<le> 64000 \<and>
           opts =
             [(''anthropic'',
               JObj [(''thinking'',
                      JObj [(''type'',
                             jsStr (orElse (getenv e ''ANTHROPIC_THINKING_TYPE'') (Some ''enabled''))),
                            (''budgetTokens'', JNum (of_int k))])])]))"
proof (intro conjI impI)
  show "buildProviderOptions pf e ''anthropic'' modelId = buildProviderOptions pf e ''anthropic'' None"
    by (simp add: anthropic_options)
next
  assume "\<not> truthy (getenv e ''ANTHROPIC_THINKING_BUDGET_TOKENS'')"
  then show "buildProviderOptions pf e ''anthropic'' modelId = Inr None"
    by (auto simp: anthropic_options parseIntSafe_cases truthy_def split: option.splits)
next
  assume "getenv e ''ANTHROPIC_THINKING_BUDGET_TOKENS'' = Some s \<and> s \<noteq> [] \<and> parseInt s = None"
  then show "\<exists>msg. buildProviderOptions pf e ''anthropic'' modelId = Inl (ConfigurationError msg)"
    by (simp add: anthropic_options parseIntSafe_cases)
next
  assume "getenv e ''ANTHROPIC_THINKING_BUDGET_TOKENS'' = Some (showInt n) \<and> (n < 1024 \<or> 64000 < n)"
  then show "\<exists>msg. buildProviderOptions pf e ''anthropic'' modelId = Inl (ConfigurationError msg)"
    by (auto simp: anthropic_options parseIntSafe_cases parseInt_showInt showInt_nonempty)
next
  assume "getenv e ''ANTHROPIC_THINKING_BUDGET_TOKENS'' = Some (showInt n) \<and> 1024 \<le> n \<and> n \<le> 64000"
  then show "buildProviderOptions pf e ''anthropic'' modelId =
        Inr (Some [(''anthropic'',
               JObj [(''thinking'',
                      JObj [(''type'',
                             jsStr (orElse (getenv e ''ANTHROPIC_THINKING_TYPE'') (Some ''enabled''))),
                            (''budgetTokens'', JNum (of_int n))])])])"
    by (simp add: anthropic_options parseIntSafe_cases parseInt_showInt showInt_nonempty)
next
  assume a: "buildProviderOptions pf e ''anthropic'' modelId = Inr (Some opts)"
  then obtain k where k: "parseIntSafe (getenv e ''ANTHROPIC_THINKING_BUDGET_TOKENS'')
             ''ANTHROPIC_THINKING_BUDGET_TOKENS'' (Some 1024) (Some 64000) = Inr (Some k)"
    and o: "opts = [(''anthropic'',
               JObj [(''thinking'',
                      JObj [(''type'',
                             jsStr (orElse (getenv e ''ANTHROPIC_THINKING_TYPE'') (Some ''enabled''))),
                            (''budgetTokens'', JNum (of_int k))])])]"
    by (auto simp: anthropic_options split: sum.splits option.splits)
  from parseIntSafe_in_range [OF k]
  show "truthy (getenv e ''ANTHROPIC_THINKING_BUDGET_TOKENS'')"
    by (auto simp: truthy_def)
  from parseIntSafe_in_range [OF k] o
  show "\<exists>k. 1024 \<le> k \<and> k \<le> 64000 \<and>
           opts =
             [(''anthropic'',
               JObj [(''thinking'',
                      JObj [(''type'',
                             jsStr (orElse (getenv e ''ANTHROPIC_THINKING_TYPE'') (Some ''enabled''))),
                            (''budgetTokens'', JNum (of_int k))])])]"
    by blast
qed

theorem anthropic_budget_any_model_witness:
  "buildProviderOptions noFloat [(''ANTHROPIC_THINKING_BUDGET_TOKENS'', ''2048'')] ''anthropic''
     (Some ''gpt-4o'') =
     Inr (Some [(''anthropic'',
            JObj [(''thinking'',
                   JObj [(''type'', JStr ''enabled''), (''budgetTokens'', JNum 2048)])])]) \<and>
   (\<exists>msg. buildProviderOptions noFloat [(''ANTHROPIC_THINKING_BUDGET_TOKENS'', ''70000'')]
            ''anthropic'' (Some ''claude-sonnet-4-5'') = Inl (ConfigurationError msg)) \<and>
   (\<exists>msg. buildProviderOptions noFloat [(''ANTHROPIC_THINKING_BUDGET_TOKENS'', ''lots'')]
            ''anthropic'' (Some ''claude-sonnet-4-5'') = Inl (ConfigurationError msg)) \<and>
   buildProviderOptions noFloat [] ''anthropic'' (Some ''claude-sonnet-4-5'') = Inr None"
proof -
  let ?B = "''ANTHROPIC_THINKING_BUDGET_TOKENS''"
  have s1: "showInt 2048 = ''2048''" by (simp add: showInt_def showNat.simps) code_simp
  have s2: "showInt 70000 = ''70000''" by (simp add: showInt_def showNat.simps) code_simp
  have h1: "getenv [(?B, ''2048'')] ?B = Some (showInt 2048) \<and> (1024::int) \<le> 2048 \<and> (2048::int) \<le> 64000"
    by (simp add: s1 getenv_def)
  have h2: "getenv [(?B, ''70000'')] ?B = Some (showInt 70000) \<and> ((70000::int) < 1024 \<or> (64000::int) < 70000)"
    by (simp add: s2 getenv_def)
  have h3: "getenv [(?B, ''lots'')] ?B = Some ''lots'' \<and> ''lots'' \<noteq> [] \<and> parseInt ''lots'' = None"
    by code_simp
  have h4: "\<not> truthy (getenv [] ?B)" by code_simp
  have t: "jsStr (orElse (getenv [(?B, ''2048'')] ''ANTHROPIC_THINKING_TYPE'') (Some ''enabled'')) =
           JStr ''enabled''"
    by code_simp
  from anthropic_budget_any_model
         [of noFloat "[(?B, ''2048'')]" "Some ''gpt-4o''" "''2048''" 2048 "[]"] h1
  have "buildProviderOptions noFloat [(?B, ''2048'')] ''anthropic'' (Some ''gpt-4o'') =
     Inr (Some [(''anthropic'',
            JObj [(''thinking'',
                   JObj [(''type'',
                          jsStr (orElse (getenv [(?B, ''2048'')] ''ANTHROPIC_THINKING_TYPE'')
                                   (Some ''enabled''))),
                         (''budgetTokens'', JNum (of_int 2048))])])])"
    by blast
  then have r1: "buildProviderOptions noFloat [(?B, ''2048'')] ''anthropic'' (Some ''gpt-4o'') =
     Inr (Some [(''anthropic'',
            JObj [(''thinking'',
                   JObj [(''type'', JStr ''enabled''), (''budgetTokens'', JNum 2048)])])])"
    by (simp only: t of_int_numeral)
  from anthropic_budget_any_model
         [of noFloat "[(?B, ''70000'')]" "Some ''claude-sonnet-4-5''" "''70000''" 70000 "[]"] h2
  have r2: "\<exists>msg. buildProviderOptions noFloat [(?B, ''70000'')]
            ''anthropic'' (Some ''claude-sonnet-4-5'') = Inl (ConfigurationError msg)"
    by blast
  from anthropic_budget_any_model
         [of noFloat "[(?B, ''lots'')]" "Some ''claude-sonnet-4-5''" "''lots''" 0 "[]"] h3
  have r3: "\<exists>msg. buildProviderOptions noFloat [(?B, ''lots'')]
            ''anthropic'' (Some ''claude-sonnet-4-5'') = Inl (ConfigurationError msg)"
    by blast
  from anthropic_budget_any_model [of noFloat "[]" "Some ''claude-sonnet-4-5''" "[]" 0 "[]"] h4
  have r4: "buildProviderOptions noFloat [] ''anthropic'' (Some ''claude-sonnet-4-5'') = Inr None"
    by blast
  from r1 r2 r3 r4 show ?thesis by blast
qed

text \<open>
  C9, as the code has it. The claim says that every bedrock model identifier with the
  Claude marker carries the fixed beta flags. The flags are guarded by the substring
  "anthropic.claude" (line 567), while the reasoning budget is given to every
  identifier that contains "claude" or "anthropic" (lines 304-305 and 314-315). The
  identifier \<open>claude-3-haiku\<close> contains "claude" and not "anthropic.claude": with a
  budget of 2048 the descriptor carries the \<open>reasoningConfig\<close> and no \<open>anthropicBeta\<close>.
\<close>

theorem bedrock_beta_flags_counterexample:
  "str_includes ''claude-3-haiku'' ''claude'' \<and>
   \<not> str_includes ''claude-3-haiku'' ''anthropic.claude'' \<and>
   getAIModel noFloat
     [(''AI_PROVIDER'', ''bedrock''), (''AI_MODEL'', ''claude-3-haiku''),
      (''BEDROCK_REASONING_BUDGET_TOKENS'', ''2048'')] None =
     Inr \<lparr>cfg_model =
            \<lparr>factory = ''createAmazonBedrock'',
             settings =
               Some [(''region'', JStr ''us-west-2''),
                     (''credentialProvider'', JOpaque ''fromNodeProviderChain()'')],
             chat = False, target = ''claude-3-haiku''\<rparr>,
          cfg_providerOptions =
            Some [(''bedrock'',
                   JObj [(''reasoningConfig'',
                          JObj [(''type'', JStr ''enabled''), (''budgetTokens'', JNum 2048)])])],
          cfg_headers = None, cfg_modelId = ''claude-3-haiku''\<rparr>"
  by code_simp

text \<open>
  C9, amended. For every resolution that passes the gate and selects \<open>bedrock\<close>, with
  \<open>BEDROCK_REASONING_BUDGET_TOKENS\<close> absent or valid: if the model identifier contains
  the substring "anthropic.claude", \<open>getAIModel\<close> returns a descriptor whose options
  are one \<open>bedrock\<close> object that carries the fixed \<open>anthropicBeta\<close> flags and, when
  the budget is supplied, also the \<open>reasoningConfig\<close> with that budget: both at once.
  If the identifier does not contain "anthropic.claude", the descriptor's options are
  those built from the environment, unchanged: nothing, or a \<open>bedrock\<close> object whose
  only key is \<open>reasoningConfig\<close>, without the beta flags.
\<close>

theorem bedrock_beta_flags_by_marker:
  assumes "securityGate overrides = Inr ()"
    and "resolveModelId e overrides = Inr m"
    and "selectProvider e overrides = Inr ''bedrock''"
    and "parseIntSafe (getenv e ''BEDROCK_REASONING_BUDGET_TOKENS'')
           ''BEDROCK_REASONING_BUDGET_TOKENS'' (Some 1024) (Some 64000) = Inr budget"
  shows "(str_includes m ''anthropic.claude'' \<longrightarrow>
          (\<exists>cfg obj. getAIModel pf e overrides = Inr cfg \<and>
             cfg_providerOptions cfg = Some [(''bedrock'', JObj obj)] \<and>
             map_of obj ''anthropicBeta'' =
               Some (JArr [JStr ''fine-grained-tool-streaming-2025-05-14'']) \<and>
             (case budget of
                None \<Rightarrow> True
              | Some n \<Rightarrow>
                  map_of obj ''reasoningConfig'' =
                    Some (JObj [(''type'', JStr ''enabled''),
                                (''budgetTokens'', JNum (of_int n))])))) \<and>
         (\<not> str_includes m ''anthropic.claude'' \<longrightarrow>
          (\<exists>cfg. getAIModel pf e overrides = Inr cfg \<and>
             buildProviderOptions pf e ''bedrock'' (Some m) = Inr (cfg_providerOptions cfg) \<and>
             (cfg_providerOptions cfg = None \<or>
              (\<exists>rc. cfg_providerOptions cfg =
                      Some [(''bedrock'', JObj [(''reasoningConfig'', rc)])]))))"
proof (intro conjI impI)
  note nc = bedrock_from_environment [OF assms(3)]
  assume mk: "str_includes m ''anthropic.claude''"
  from bedrock_claude_options [OF mk assms(4), of pf]
  obtain c where c: "buildProviderOptions pf e ''bedrock'' (Some m) = Inr c"
    and shape: "(case budget of
              None \<Rightarrow> c = None \<or> (\<exists>rc. c = Some [(''bedrock'', JObj [(''reasoningConfig'', rc)])])
            | Some n \<Rightarrow>
                c = Some [(''bedrock'',
                           JObj [(''reasoningConfig'',
                                  JObj [(''type'', JStr ''enabled''),
                                        (''budgetTokens'', JNum (of_int n))])])])"
    by blast
  have g: "getAIModel pf e overrides =
      (case switchProvider e overrides ''bedrock'' m c of
         Inl err \<Rightarrow> Inl err
       | Inr (model, providerOptions, headers) \<Rightarrow>
          Inr \<lparr>cfg_model = model, cfg_providerOptions = providerOptions,
               cfg_headers = headers, cfg_modelId = m\<rparr>)"
    using assms(1-3) nc c
    by (simp add: getAIModel_def validate_bedrock split: sum.splits prod.splits)
  show "\<exists>cfg obj. getAIModel pf e overrides = Inr cfg \<and>
             cfg_providerOptions cfg = Some [(''bedrock'', JObj obj)] \<and>
             map_of obj ''anthropicBeta'' =
               Some (JArr [JStr ''fine-grained-tool-streaming-2025-05-14'']) \<and>
             (case budget of
                None \<Rightarrow> True
              | Some n \<Rightarrow>
                  map_of obj ''reasoningConfig'' =
                    Some (JObj [(''type'', JStr ''enabled''),
                                (''budgetTokens'', JNum (of_int n))]))"
  proof (cases budget)
    case None
    with shape consider "c = None"
      | rc where "c = Some [(''bedrock'', JObj [(''reasoningConfig'', rc)])]"
      by auto
    then show ?thesis
    proof cases
      case 1
      with None mk show ?thesis
        by (simp add: g switchProvider_def BEDROCK_ANTHROPIC_BETA_def objOrEmpty_def spread_def)
    next
      case 2
      with None mk show ?thesis
        by (simp add: g switchProvider_def BEDROCK_ANTHROPIC_BETA_def objOrEmpty_def spread_def)
    qed
  next
    case (Some n)
    with shape mk show ?thesis
      by (simp add: g switchProvider_def BEDROCK_ANTHROPIC_BETA_def objOrEmpty_def spread_def)
  qed
next
  note nc = bedrock_from_environment [OF assms(3)]
  assume nmk: "\<not> str_includes m ''anthropic.claude''"
  from bedrock_options_shape [OF assms(4), of pf m]
  obtain c where c: "buildProviderOptions pf e ''bedrock'' (Some m) = Inr c"
    and shape: "c = None \<or> (\<exists>rc. c = Some [(''bedrock'', JObj [(''reasoningConfig'', rc)])])"
    by blast
  have "getAIModel pf e overrides =
      Inr \<lparr>cfg_model =
             \<lparr>factory = ''createAmazonBedrock'',
              settings =
                Some [(''region'', jsStr (orElse (getenv e ''AWS_REGION'') (Some ''us-west-2''))),
                      (''credentialProvider'', JOpaque ''fromNodeProviderChain()'')],
              chat = False, target = m\<rparr>,
           cfg_providerOptions = c, cfg_headers = None, cfg_modelId = m\<rparr>"
    using assms(1-3) nc c nmk
    by (simp add: getAIModel_def validate_bedrock switchProvider_def)
  with c shape
  show "\<exists>cfg. getAIModel pf e overrides = Inr cfg \<and>
             buildProviderOptions pf e ''bedrock'' (Some m) = Inr (cfg_providerOptions cfg) \<and>
             (cfg_providerOptions cfg = None \<or>
              (\<exists>rc. cfg_providerOptions cfg =
                      Some [(''bedrock'', JObj [(''reasoningConfig'', rc)])]))"
    by auto
qed

theorem bedrock_beta_flags_by_marker_witness:
  "(\<exists>cfg obj.
      getAIModel noFloat
        [(''AI_PROVIDER'', ''bedrock''), (''AI_MODEL'', ''us.anthropic.claude-sonnet-4-5''),
         (''BEDROCK_REASONING_BUDGET_TOKENS'', ''2048'')] None = Inr cfg \<and>
      cfg_providerOptions cfg = Some [(''bedrock'', JObj obj)] \<and>
      map_of obj ''anthropicBeta'' = Some (JArr [JStr ''fine-grained-tool-streaming-2025-05-14'']) \<and>
      map_of obj ''reasoningConfig'' =
        Some (JObj [(''type'', JStr ''enabled''), (''budgetTokens'', JNum 2048)])) \<and>
   (\<exists>cfg.
      getAIModel noFloat
        [(''AI_PROVIDER'', ''bedrock''), (''AI_MODEL'', ''claude-3-haiku''),
         (''BEDROCK_REASONING_BUDGET_TOKENS'', ''2048'')] None = Inr cfg \<and>
      (cfg_providerOptions cfg = None \<or>
       (\<exists>rc. cfg_providerOptions cfg = Some [(''bedrock'', JObj [(''reasoningConfig'', rc)])])))"
proof -
  let ?e = "[(''AI_PROVIDER'', ''bedrock''), (''AI_MODEL'', ''us.anthropic.claude-sonnet-4-5''),
             (''BEDROCK_REASONING_BUDGET_TOKENS'', ''2048'')]"
  let ?e' = "[(''AI_PROVIDER'', ''bedrock''), (''AI_MODEL'', ''claude-3-haiku''),
              (''BEDROCK_REASONING_BUDGET_TOKENS'', ''2048'')]"
  have g: "securityGate None = Inr ()" by code_simp
  have m: "resolveModelId ?e None = Inr ''us.anthropic.claude-sonnet-4-5''" by code_simp
  have s: "selectProvider ?e None = Inr ''bedrock''" by code_simp
  have i: "str_includes ''us.anthropic.claude-sonnet-4-5'' ''anthropic.claude''" by code_simp
  have b: "parseIntSafe (getenv ?e ''BEDROCK_REASONING_BUDGET_TOKENS'')
             ''BEDROCK_REASONING_BUDGET_TOKENS'' (Some 1024) (Some 64000) = Inr (Some 2048)"
    by code_simp
  have m': "resolveModelId ?e' None = Inr ''claude-3-haiku''" by code_simp
  have s': "selectProvider ?e' None = Inr ''bedrock''" by code_simp
  have i': "\<not> str_includes ''claude-3-haiku'' ''anthropic.claude''" by code_simp
  have b': "parseIntSafe (getenv ?e' ''BEDROCK_REASONING_BUDGET_TOKENS'')
             ''BEDROCK_REASONING_BUDGET_TOKENS'' (Some 1024) (Some 64000) = Inr (Some 2048)"
    by code_simp
  from bedrock_beta_flags_by_marker [OF g m s b, of noFloat] i
  have r1: "\<exists>cfg obj.
      getAIModel noFloat ?e None = Inr cfg \<and>
      cfg_providerOptions cfg = Some [(''bedrock'', JObj obj)] \<and>
      map_of obj ''anthropicBeta'' = Some (JArr [JStr ''fine-grained-tool-streaming-2025-05-14'']) \<and>
      map_of obj ''reasoningConfig'' =
        Some (JObj [(''type'', JStr ''enabled''), (''budgetTokens'', JNum 2048)])"
    by simp
  from bedrock_beta_flags_by_marker [OF g m' s' b', of noFloat] i'
  have r2: "\<exists>cfg.
      getAIModel noFloat ?e' None = Inr cfg \<and>
      (cfg_providerOptions cfg = None \<or>
       (\<exists>rc. cfg_providerOptions cfg = Some [(''bedrock'', JObj [(''reasoningConfig'', rc)])]))"
    by blast
  from r1 r2 show ?thesis by blast
qed

text \<open>
  C10. For every model identifier \<open>m\<close>, \<open>supportsPromptCaching m\<close> is true exactly when
  \<open>m\<close> contains the substring "claude" or the substring "anthropic": the two
  \<open>startsWith\<close> tests never change the result. The function takes the identifier alone
  (neither a provider nor the environment is an argument), so the answer is the same
  whichever provider the identifier is used with.
\<close>

theorem supportsPromptCaching_iff_substring:
  "supportsPromptCaching m \<longleftrightarrow>
     ((\<exists>a b. m = a @ ''claude'' @ b) \<or> (\<exists>a b. m = a @ ''anthropic'' @ b))"
proof -
  have us: "str_startsWith m ''us.anthropic'' \<Longrightarrow> str_includes m ''anthropic''"
    using str_startsWith_includes [of m "''us.''" "''anthropic''"] by simp
  have eu: "str_startsWith m ''eu.anthropic'' \<Longrightarrow> str_includes m ''anthropic''"
    using str_startsWith_includes [of m "''eu.''" "''anthropic''"] by simp
  have "supportsPromptCaching m \<longleftrightarrow>
          (str_includes m ''claude'' \<or> str_includes m ''anthropic'')"
    unfolding supportsPromptCaching_def using us eu by blast
  then show ?thesis by (simp only: str_includes_iff)
qed

end
